theory Spec2Isabelle
  imports Main "HOL-Library.Product_Lexorder" "HOL-Library.Multiset"
begin

section \<open>Order model (\<open>_order_management.py\<close>, lines 1--154)\<close>

text \<open>
  The enums \<open>OrderType\<close> and \<open>OrderSide\<close> and the exception classes of the module.
  \<open>AttributeError\<close>, \<open>AssertionError\<close> and \<open>TypeError\<close> are the built-in exceptions
  that the engine's statements raise on a missing attribute, a failed \<open>assert\<close> and an
  item assignment to an object.
\<close>

datatype OrderType = LIMIT | MARKET | IOC

datatype OrderSide = BUY | SELL

datatype error =
    NonPositiveQuantity
  | NonPositivePrice
  | InvalidSide
  | UndefinedOrderType
  | UndefinedOrderSide
  | NewQuantityNotSmaller
  | UndefinedTraderAction
  | UndefinedResponse
  | AttributeError
  | AssertionError
  | TypeError

text \<open>
  An order object. The attributes \<open>id\<close> and \<open>type\<close> are called \<open>order_id\<close> and
  \<open>order_type\<close> here. Quantities are integers (numbers of units), prices and
  timestamps are integers too: the engine only compares and negates them.
  \<open>price = None\<close> is an object without the attribute \<open>price\<close> (a \<open>MarketOrder\<close>
  before any fill); \<open>side = None\<close> is Python's \<open>None\<close>; \<open>order_type = None\<close> is a
  value that is none of the three members of \<open>OrderType\<close>.
\<close>

record Order =
  order_id :: int
  symbol :: string
  quantity :: int
  side :: "OrderSide option"
  time :: int
  price :: "int option"
  order_type :: "OrderType option"

text \<open>
  The constructors. \<open>Order.__init__\<close> checks the quantity, then the side;
  \<open>LimitOrder\<close> and \<open>IOCOrder\<close> then check the price. \<open>MarketOrder\<close> sets no price.
\<close>

definition LimitOrder :: "int \<Rightarrow> string \<Rightarrow> int \<Rightarrow> int \<Rightarrow> OrderSide option \<Rightarrow> int \<Rightarrow> error + Order" where
  "LimitOrder i s q p sd t =
     (if \<not> q > 0 then Inl NonPositiveQuantity
      else if sd = None then Inl InvalidSide
      else if \<not> p > 0 then Inl NonPositivePrice
      else Inr \<lparr>order_id = i, symbol = s, quantity = q, side = sd, time = t,
                price = Some p, order_type = Some LIMIT\<rparr>)"

definition MarketOrder :: "int \<Rightarrow> string \<Rightarrow> int \<Rightarrow> OrderSide option \<Rightarrow> int \<Rightarrow> error + Order" where
  "MarketOrder i s q sd t =
     (if \<not> q > 0 then Inl NonPositiveQuantity
      else if sd = None then Inl InvalidSide
      else Inr \<lparr>order_id = i, symbol = s, quantity = q, side = sd, time = t,
                price = None, order_type = Some MARKET\<rparr>)"

definition IOCOrder :: "int \<Rightarrow> string \<Rightarrow> int \<Rightarrow> int \<Rightarrow> OrderSide option \<Rightarrow> int \<Rightarrow> error + Order" where
  "IOCOrder i s q p sd t =
     (if \<not> q > 0 then Inl NonPositiveQuantity
      else if sd = None then Inl InvalidSide
      else if \<not> p > 0 then Inl NonPositivePrice
      else Inr \<lparr>order_id = i, symbol = s, quantity = q, side = sd, time = t,
                price = Some p, order_type = Some IOC\<rparr>)"

section \<open>The matching engine\<close>

text \<open>
  \<open>MatchingEngine\<close> holds the two books. A method either returns a value together with
  the engine after the call, or raises: an exception carries the engine as it is at the
  moment of the \<open>raise\<close>, which is what a caller that catches the exception goes on with.
\<close>

record MatchingEngine =
  bid_book :: "Order list"
  ask_book :: "Order list"

type_synonym 'a result = "(error \<times> MatchingEngine) + ('a \<times> MatchingEngine)"

definition new_engine :: MatchingEngine where
  "new_engine = \<lparr>bid_book = [], ask_book = []\<rparr>"

subsection \<open>Sorting\<close>

text \<open>
  \<open>sorted(xs, key=f)\<close> evaluates the key of every element, raising \<open>AttributeError\<close>
  (the result \<open>None\<close> here) when an element has no \<open>price\<close>, and sorts stably by the
  key; the keys are pairs, compared lexicographically. \<open>sort_key\<close> is a stable sort.
\<close>

definition py_sorted :: "(Order \<Rightarrow> (int \<times> int) option) \<Rightarrow> Order list \<Rightarrow> Order list option" where
  "py_sorted key xs =
     (if list_all (\<lambda>x. key x \<noteq> None) xs then Some (sort_key (\<lambda>x. the (key x)) xs) else None)"

text \<open>The three keys of the source: \<open>(-x.price, x.time)\<close>, \<open>(x.price, -x.time)\<close>, \<open>(x.price, x.time)\<close>.\<close>

definition key_neg_price_time :: "Order \<Rightarrow> (int \<times> int) option" where
  "key_neg_price_time x = map_option (\<lambda>p. (- p, time x)) (price x)"

definition key_price_neg_time :: "Order \<Rightarrow> (int \<times> int) option" where
  "key_price_neg_time x = map_option (\<lambda>p. (p, - time x)) (price x)"

definition key_price_time :: "Order \<Rightarrow> (int \<times> int) option" where
  "key_price_time x = map_option (\<lambda>p. (p, time x)) (price x)"

subsection \<open>The crossing loop\<close>

text \<open>
  The six \<open>while\<close> loops of the three handlers have the same text up to the name of the
  book they pop from, with two differences: the market handler's \<open>elif\<close> has no price
  test, and the market and IOC handlers assign \<open>order.price = book.price\<close> in the branch
  \<open>book.quantity > order.quantity\<close>. \<open>cross k\<close> is the loop of the handler for kind \<open>k\<close>:
  \<open>cross k order book temp_list filled_orders\<close> pops the entries of \<open>book\<close> from the front.

  The lists of the source hold references. \<open>filled_orders.append(book)\<close> followed by
  \<open>book.quantity = 0\<close> leaves in the list an object whose quantity reads 0, and likewise
  for \<open>order\<close>; after \<open>order.quantity = 0\<close> no later statement of the handler assigns to
  \<open>order\<close>, and a popped \<open>book\<close> is assigned to only in its own iteration. So the entries
  of \<open>filled_orders\<close> are written here with the field values they have when the handler
  returns. \<open>copy.deepcopy(book)\<close> is a new object with the field values of that moment.

  A missing \<open>price\<close> attribute raises \<open>AttributeError\<close> in the middle of the loop; the
  result \<open>Inl rest\<close> is then the list of entries not popped so far, which is what the
  book holds at that moment.
\<close>

fun cross :: "OrderType \<Rightarrow> Order \<Rightarrow> Order list \<Rightarrow> Order list \<Rightarrow> Order list
    \<Rightarrow> Order list + (Order \<times> Order list \<times> Order list)" where
  "cross k order [] temp_list filled_orders = Inr (order, temp_list, filled_orders)"
| "cross k order (book # rest) temp_list filled_orders =
     (if symbol book \<noteq> symbol order \<or> quantity order = 0 then
        cross k order rest (temp_list @ [book]) filled_orders
      else if k \<noteq> MARKET \<and> (price order = None \<or> price book = None) then Inl rest
      else if k = MARKET \<or> the (price order) \<le> the (price book) then
        (if quantity order > quantity book then
           cross k (order\<lparr>quantity := quantity order - quantity book\<rparr>) rest temp_list
             (filled_orders @ [book\<lparr>quantity := 0\<rparr>])
         else if quantity book > quantity order then
           (let mod_book_order = book\<lparr>quantity := quantity book - quantity order\<rparr> in
            if k = LIMIT then
              cross k (order\<lparr>quantity := 0\<rparr>) rest (temp_list @ [mod_book_order])
                (filled_orders @ [order\<lparr>quantity := 0\<rparr>, book\<lparr>quantity := quantity order\<rparr>])
            else if price book = None then Inl rest
            else
              cross k (order\<lparr>price := price book, quantity := 0\<rparr>) rest
                (temp_list @ [mod_book_order])
                (filled_orders @ [order\<lparr>price := price book, quantity := 0\<rparr>,
                                  book\<lparr>quantity := quantity order\<rparr>]))
         else
           cross k (order\<lparr>quantity := 0\<rparr>) rest temp_list
             (filled_orders @ [book\<lparr>quantity := 0\<rparr>, order\<lparr>quantity := 0\<rparr>]))
      else cross k order rest (temp_list @ [book]) filled_orders)"

subsection \<open>\<open>insert_limit_order\<close>\<close>

text \<open>
  The order is appended to the book of its side, then both books are sorted again: the
  bid book by \<open>(-price, time)\<close>, the ask book by \<open>(price, -time)\<close>.
\<close>

definition sort_books :: "MatchingEngine \<Rightarrow> unit result" where
  "sort_books e =
     (case py_sorted key_neg_price_time (bid_book e) of
        None \<Rightarrow> Inl (AttributeError, e)
      | Some b \<Rightarrow>
          (case py_sorted key_price_neg_time (ask_book e) of
             None \<Rightarrow> Inl (AttributeError, e\<lparr>bid_book := b\<rparr>)
           | Some a \<Rightarrow> Inr ((), e\<lparr>bid_book := b, ask_book := a\<rparr>)))"

definition insert_limit_order :: "Order \<Rightarrow> MatchingEngine \<Rightarrow> unit result" where
  "insert_limit_order order e =
     (if order_type order \<noteq> Some LIMIT then Inl (AssertionError, e)
      else case side order of
        Some BUY \<Rightarrow> sort_books (e\<lparr>bid_book := bid_book e @ [order]\<rparr>)
      | Some SELL \<Rightarrow> sort_books (e\<lparr>ask_book := ask_book e @ [order]\<rparr>)
      | None \<Rightarrow> Inl (UndefinedOrderSide, e))"

subsection \<open>The handlers\<close>

text \<open>
  A handler returns \<open>filled_orders\<close>; the second component of the result is the caller's
  \<open>order\<close> object after the call (the handler assigns to its \<open>quantity\<close> and \<open>price\<close>).
\<close>

definition handle_limit_order :: "Order \<Rightarrow> MatchingEngine \<Rightarrow> (Order list \<times> Order) result" where
  "handle_limit_order order e =
     (case side order of
        None \<Rightarrow> Inl (UndefinedOrderSide, e)
      | Some BUY \<Rightarrow>
          (case cross LIMIT order (ask_book e) [] [] of
             Inl rest \<Rightarrow> Inl (AttributeError, e\<lparr>ask_book := rest\<rparr>)
           | Inr (order', temp_list, filled_orders) \<Rightarrow>
               (if quantity order' > 0 then
                  (case insert_limit_order order' (e\<lparr>ask_book := temp_list\<rparr>) of
                     Inl x \<Rightarrow> Inl x
                   | Inr (u, e') \<Rightarrow> Inr ((filled_orders, order'), e'))
                else Inr ((filled_orders, order'), e\<lparr>ask_book := temp_list\<rparr>)))
      | Some SELL \<Rightarrow>
          (case cross LIMIT order (bid_book e) [] [] of
             Inl rest \<Rightarrow> Inl (AttributeError, e\<lparr>bid_book := rest\<rparr>)
           | Inr (order', temp_list, filled_orders) \<Rightarrow>
               (if quantity order' > 0 then
                  (case insert_limit_order order' (e\<lparr>bid_book := temp_list\<rparr>) of
                     Inl x \<Rightarrow> Inl x
                   | Inr (u, e') \<Rightarrow> Inr ((filled_orders, order'), e'))
                else Inr ((filled_orders, order'), e\<lparr>bid_book := temp_list\<rparr>))))"

text \<open>
  The market handler appends an order with quantity left to \<open>temp_list\<close>, the list that
  becomes the book it has just scanned, and sorts that book by \<open>(price, time)\<close>.
\<close>

definition handle_market_order :: "Order \<Rightarrow> MatchingEngine \<Rightarrow> (Order list \<times> Order) result" where
  "handle_market_order order e =
     (case side order of
        None \<Rightarrow> Inl (UndefinedOrderSide, e)
      | Some BUY \<Rightarrow>
          (case cross MARKET order (ask_book e) [] [] of
             Inl rest \<Rightarrow> Inl (AttributeError, e\<lparr>ask_book := rest\<rparr>)
           | Inr (order', temp_list, filled_orders) \<Rightarrow>
               (let temp_list' = (if quantity order' > 0 then temp_list @ [order'] else temp_list) in
                case py_sorted key_price_time temp_list' of
                  None \<Rightarrow> Inl (AttributeError, e\<lparr>ask_book := temp_list'\<rparr>)
                | Some b \<Rightarrow> Inr ((filled_orders, order'), e\<lparr>ask_book := b\<rparr>)))
      | Some SELL \<Rightarrow>
          (case cross MARKET order (bid_book e) [] [] of
             Inl rest \<Rightarrow> Inl (AttributeError, e\<lparr>bid_book := rest\<rparr>)
           | Inr (order', temp_list, filled_orders) \<Rightarrow>
               (let temp_list' = (if quantity order' > 0 then temp_list @ [order'] else temp_list) in
                case py_sorted key_price_time temp_list' of
                  None \<Rightarrow> Inl (AttributeError, e\<lparr>bid_book := temp_list'\<rparr>)
                | Some b \<Rightarrow> Inr ((filled_orders, order'), e\<lparr>bid_book := b\<rparr>))))"

definition handle_ioc_order :: "Order \<Rightarrow> MatchingEngine \<Rightarrow> (Order list \<times> Order) result" where
  "handle_ioc_order order e =
     (case side order of
        None \<Rightarrow> Inl (UndefinedOrderSide, e)
      | Some BUY \<Rightarrow>
          (case cross IOC order (ask_book e) [] [] of
             Inl rest \<Rightarrow> Inl (AttributeError, e\<lparr>ask_book := rest\<rparr>)
           | Inr (order', temp_list, filled_orders) \<Rightarrow>
               (case py_sorted key_price_time temp_list of
                  None \<Rightarrow> Inl (AttributeError, e\<lparr>ask_book := temp_list\<rparr>)
                | Some b \<Rightarrow> Inr ((filled_orders, order'), e\<lparr>ask_book := b\<rparr>)))
      | Some SELL \<Rightarrow>
          (case cross IOC order (bid_book e) [] [] of
             Inl rest \<Rightarrow> Inl (AttributeError, e\<lparr>bid_book := rest\<rparr>)
           | Inr (order', temp_list, filled_orders) \<Rightarrow>
               (case py_sorted key_price_time temp_list of
                  None \<Rightarrow> Inl (AttributeError, e\<lparr>bid_book := temp_list\<rparr>)
                | Some b \<Rightarrow> Inr ((filled_orders, order'), e\<lparr>bid_book := b\<rparr>))))"

text \<open>
  \<open>handle_order\<close> calls the handler of the order's type and drops what it returns: the
  method has no \<open>return\<close> statement, so its value is Python's \<open>None\<close>, the first
  component \<open>None\<close> of the result here.
\<close>

definition drop_return :: "(Order list \<times> Order) result \<Rightarrow> (Order list option \<times> Order) result" where
  "drop_return r = (case r of Inl x \<Rightarrow> Inl x | Inr ((filled_orders, order'), e') \<Rightarrow> Inr ((None, order'), e'))"

definition handle_order :: "Order \<Rightarrow> MatchingEngine \<Rightarrow> (Order list option \<times> Order) result" where
  "handle_order order e =
     (case order_type order of
        Some LIMIT \<Rightarrow> drop_return (handle_limit_order order e)
      | Some IOC \<Rightarrow> drop_return (handle_ioc_order order e)
      | Some MARKET \<Rightarrow> drop_return (handle_market_order order e)
      | None \<Rightarrow> Inl (UndefinedOrderType, e))"

subsection \<open>\<open>amend_quantity\<close>\<close>

text \<open>
  The loop over the bid book: every entry with the identifier is amended in place, unless
  the new quantity is greater than its quantity, which raises. \<open>Inl\<close> is the bid book at
  the moment of the \<open>raise\<close>; the flag of \<open>Inr\<close> is \<open>found_order\<close>.
\<close>

fun amend_bids :: "int \<Rightarrow> int \<Rightarrow> Order list \<Rightarrow> Order list + (Order list \<times> bool)" where
  "amend_bids i q [] = Inr ([], False)"
| "amend_bids i q (bid # rest) =
     (if order_id bid = i then
        (if q > quantity bid then Inl (bid # rest)
         else (case amend_bids i q rest of
                 Inl r \<Rightarrow> Inl (bid\<lparr>quantity := q\<rparr> # r)
               | Inr (r, found_order) \<Rightarrow> Inr (bid\<lparr>quantity := q\<rparr> # r, True)))
      else (case amend_bids i q rest of
              Inl r \<Rightarrow> Inl (bid # r)
            | Inr (r, found_order) \<Rightarrow> Inr (bid # r, found_order)))"

text \<open>
  The loop over the ask book, run when the bid book has no such identifier. At the first
  entry with the identifier it raises: \<open>NewQuantityNotSmaller\<close> for a greater quantity,
  and otherwise \<open>TypeError\<close>, since \<open>ask['quantity'] = quantity\<close> assigns an item of an
  object that is no mapping. Nothing is changed before either \<open>raise\<close>.
\<close>

fun amend_asks :: "int \<Rightarrow> int \<Rightarrow> Order list \<Rightarrow> error option" where
  "amend_asks i q [] = None"
| "amend_asks i q (ask # rest) =
     (if order_id ask = i then
        (if q > quantity ask then Some NewQuantityNotSmaller else Some TypeError)
      else amend_asks i q rest)"

definition amend_quantity :: "int \<Rightarrow> int \<Rightarrow> MatchingEngine \<Rightarrow> unit result" where
  "amend_quantity i q e =
     (case amend_bids i q (bid_book e) of
        Inl b \<Rightarrow> Inl (NewQuantityNotSmaller, e\<lparr>bid_book := b\<rparr>)
      | Inr (b, found_order) \<Rightarrow>
          (if \<not> found_order then
             (case amend_asks i q (ask_book e) of
                Some err \<Rightarrow> Inl (err, e\<lparr>bid_book := b\<rparr>)
              | None \<Rightarrow> Inr ((), e\<lparr>bid_book := b\<rparr>))
           else Inr ((), e\<lparr>bid_book := b\<rparr>)))"

subsection \<open>\<open>cancel_order\<close>\<close>

text \<open>\<open>del_first i xs\<close> deletes the first entry with identifier \<open>i\<close>; \<open>None\<close> when there is none.\<close>

fun del_first :: "int \<Rightarrow> Order list \<Rightarrow> Order list option" where
  "del_first i [] = None"
| "del_first i (x # xs) =
     (if order_id x = i then Some xs else map_option ((#) x) (del_first i xs))"

definition cancel_order :: "int \<Rightarrow> MatchingEngine \<Rightarrow> bool \<times> MatchingEngine" where
  "cancel_order i e =
     (case del_first i (bid_book e) of
        Some b \<Rightarrow> (True, e\<lparr>bid_book := b\<rparr>)
      | None \<Rightarrow>
          (case del_first i (ask_book e) of
             Some a \<Rightarrow> (True, e\<lparr>ask_book := a\<rparr>)
           | None \<Rightarrow> (False, e)))"

section \<open>Notions used to state the properties\<close>

text \<open>
  A caller that goes on after an exception (as \<open>SimulatedBroker.submit_order\<close> does, which
  catches every exception of \<open>handle_order\<close>) works with the engine as the failed call left
  it. \<open>run_requests\<close> is the engine reached from the empty one by a sequence of calls.
\<close>

datatype request = Submit Order | Amend int int | Cancel int

definition after_result :: "'a result \<Rightarrow> MatchingEngine" where
  "after_result r = (case r of Inl (err, e') \<Rightarrow> e' | Inr (v, e') \<Rightarrow> e')"

fun request_step :: "MatchingEngine \<Rightarrow> request \<Rightarrow> MatchingEngine" where
  "request_step e (Submit order) = after_result (handle_order order e)"
| "request_step e (Amend i q) = after_result (amend_quantity i q e)"
| "request_step e (Cancel i) = snd (cancel_order i e)"

definition run_requests :: "request list \<Rightarrow> MatchingEngine" where
  "run_requests rs = foldl request_step new_engine rs"

text \<open>
  The order of a side: \<open>bid_before a b\<close> says that \<open>a\<close> may stand before \<open>b\<close> in a bid
  book sorted by price descending, then time ascending; \<open>ask_before\<close> is the same for
  price ascending, then time ascending.
\<close>

definition bid_before :: "Order \<Rightarrow> Order \<Rightarrow> bool" where
  "bid_before a b =
     (case (price a, price b) of
        (Some p, Some r) \<Rightarrow> r < p \<or> (p = r \<and> time a \<le> time b)
      | _ \<Rightarrow> False)"

definition ask_before :: "Order \<Rightarrow> Order \<Rightarrow> bool" where
  "ask_before a b =
     (case (price a, price b) of
        (Some p, Some r) \<Rightarrow> p < r \<or> (p = r \<and> time a \<le> time b)
      | _ \<Rightarrow> False)"

definition book_invariant :: "MatchingEngine \<Rightarrow> bool" where
  "book_invariant e \<longleftrightarrow>
     list_all (\<lambda>x. 0 < quantity x) (bid_book e @ ask_book e) \<and>
     sorted_wrt bid_before (bid_book e) \<and>
     sorted_wrt ask_before (ask_book e)"

text \<open>
  The order that \<open>insert_limit_order\<close> gives the ask book: price ascending, and among
  equal prices the later order first. \<open>inserted_invariant\<close> is \<open>book_invariant\<close> with
  this order for the ask book. \<open>limit_request\<close> admits the submission of a limit order
  as \<open>LimitOrder\<close> constructs it (type \<open>LIMIT\<close>, a positive quantity, a price, a side),
  an amendment to a positive quantity, and any cancellation. \<open>books_ok\<close> is the form of
  the invariant that the proofs carry: every entry has a price and a positive quantity,
  and each book is sorted by the key that \<open>insert_limit_order\<close> sorts it by.
\<close>

definition ask_before_inserted :: "Order \<Rightarrow> Order \<Rightarrow> bool" where
  "ask_before_inserted a b =
     (case (price a, price b) of
        (Some p, Some r) \<Rightarrow> p < r \<or> (p = r \<and> time b \<le> time a)
      | _ \<Rightarrow> False)"

definition inserted_invariant :: "MatchingEngine \<Rightarrow> bool" where
  "inserted_invariant e \<longleftrightarrow>
     list_all (\<lambda>x. 0 < quantity x) (bid_book e @ ask_book e) \<and>
     sorted_wrt bid_before (bid_book e) \<and>
     sorted_wrt ask_before_inserted (ask_book e)"

fun limit_request :: "request \<Rightarrow> bool" where
  "limit_request (Submit order) \<longleftrightarrow>
     order_type order = Some LIMIT \<and> 0 < quantity order \<and> price order \<noteq> None \<and>
     side order \<noteq> None"
| "limit_request (Amend i q) \<longleftrightarrow> 0 < q"
| "limit_request (Cancel i) \<longleftrightarrow> True"

definition bid_key :: "Order \<Rightarrow> int \<times> int" where
  "bid_key x = the (key_neg_price_time x)"

definition ask_key :: "Order \<Rightarrow> int \<times> int" where
  "ask_key x = the (key_price_neg_time x)"

definition resting_ok :: "Order \<Rightarrow> bool" where
  "resting_ok x \<longleftrightarrow> price x \<noteq> None \<and> 0 < quantity x"

definition books_ok :: "MatchingEngine \<Rightarrow> bool" where
  "books_ok e \<longleftrightarrow>
     (\<forall>x\<in>set (bid_book e). resting_ok x) \<and> (\<forall>x\<in>set (ask_book e). resting_ok x) \<and>
     sorted (map bid_key (bid_book e)) \<and> sorted (map ask_key (ask_book e))"

text \<open>The quantity a book holds, and the books seen from the side of an incoming order.\<close>

definition total_quantity :: "Order list \<Rightarrow> int" where
  "total_quantity xs = sum_list (map quantity xs)"

fun opposite_book :: "OrderSide \<Rightarrow> MatchingEngine \<Rightarrow> Order list" where
  "opposite_book BUY e = ask_book e"
| "opposite_book SELL e = bid_book e"

fun own_book :: "OrderSide \<Rightarrow> MatchingEngine \<Rightarrow> Order list" where
  "own_book BUY e = bid_book e"
| "own_book SELL e = ask_book e"

fun set_opposite_book :: "OrderSide \<Rightarrow> Order list \<Rightarrow> MatchingEngine \<Rightarrow> MatchingEngine" where
  "set_opposite_book BUY xs e = e\<lparr>ask_book := xs\<rparr>"
| "set_opposite_book SELL xs e = e\<lparr>bid_book := xs\<rparr>"

text \<open>
  \<open>crossable k order book\<close>: the iteration for the popped entry \<open>book\<close> reaches the
  comparison of the two quantities in the handler for kind \<open>k\<close>.
\<close>

definition crossable :: "OrderType \<Rightarrow> Order \<Rightarrow> Order \<Rightarrow> bool" where
  "crossable k order book \<longleftrightarrow>
     symbol book = symbol order \<and> quantity order \<noteq> 0 \<and>
     (k = MARKET \<or>
      (case (price order, price book) of (Some p, Some r) \<Rightarrow> p \<le> r | _ \<Rightarrow> False))"

text \<open>The engine without the entries that carry the identifier \<open>i\<close>.\<close>

definition without_id :: "int \<Rightarrow> MatchingEngine \<Rightarrow> MatchingEngine" where
  "without_id i e = e\<lparr>bid_book := filter (\<lambda>x. order_id x \<noteq> i) (bid_book e),
                       ask_book := filter (\<lambda>x. order_id x \<noteq> i) (ask_book e)\<rparr>"

section \<open>Evaluation of the handlers\<close>

lemmas handler_defs = handle_order_def drop_return_def handle_limit_order_def
  handle_market_order_def handle_ioc_order_def insert_limit_order_def sort_books_def
  py_sorted_def key_neg_price_time_def key_price_neg_time_def key_price_time_def

lemmas run_defs = run_requests_def after_result_def new_engine_def

section \<open>Constructed orders\<close>

text \<open>What the constructors guarantee of an order they return.\<close>

lemma LimitOrder_fields:
  "LimitOrder i s q p sd t = Inr order \<Longrightarrow>
   order_type order = Some LIMIT \<and> 0 < quantity order \<and> price order = Some p \<and> 0 < p \<and>
   side order = sd \<and> sd \<noteq> None"
  by (auto simp: LimitOrder_def split: if_splits)

lemma IOCOrder_fields:
  "IOCOrder i s q p sd t = Inr order \<Longrightarrow>
   order_type order = Some IOC \<and> 0 < quantity order \<and> price order = Some p \<and> 0 < p \<and>
   side order = sd \<and> sd \<noteq> None"
  by (auto simp: IOCOrder_def split: if_splits)

lemma MarketOrder_fields:
  "MarketOrder i s q sd t = Inr order \<Longrightarrow>
   order_type order = Some MARKET \<and> 0 < quantity order \<and> price order = None \<and>
   side order = sd \<and> sd \<noteq> None"
  by (auto simp: MarketOrder_def split: if_splits)

lemma LimitOrder_limit_request:
  "LimitOrder i s q p sd t = Inr order \<Longrightarrow> limit_request (Submit order)"
  by (auto dest: LimitOrder_fields)

section \<open>The crossing loop, branch by branch\<close>

lemma cross_zero:
  "quantity order = 0 \<Longrightarrow>
   cross k order book temp_list filled_orders = Inr (order, temp_list @ book, filled_orders)"
  by (induction book arbitrary: temp_list) simp_all

lemma cross_skip:
  "symbol book \<noteq> symbol order \<or> quantity order = 0 \<Longrightarrow>
   cross k order (book # rest) temp_list filled_orders =
     cross k order rest (temp_list @ [book]) filled_orders"
  by simp

lemma cross_no_price:
  "symbol book = symbol order \<Longrightarrow> quantity order \<noteq> 0 \<Longrightarrow> k \<noteq> MARKET \<Longrightarrow>
   price order = None \<or> price book = None \<Longrightarrow>
   cross k order (book # rest) temp_list filled_orders = Inl rest"
  by simp

lemma cross_no_match:
  "symbol book = symbol order \<Longrightarrow> quantity order \<noteq> 0 \<Longrightarrow> k \<noteq> MARKET \<Longrightarrow>
   price order = Some p \<Longrightarrow> price book = Some r \<Longrightarrow> \<not> p \<le> r \<Longrightarrow>
   cross k order (book # rest) temp_list filled_orders =
     cross k order rest (temp_list @ [book]) filled_orders"
  by simp

lemma cross_greater:
  "crossable k order book \<Longrightarrow> quantity order > quantity book \<Longrightarrow>
   cross k order (book # rest) temp_list filled_orders =
     cross k (order\<lparr>quantity := quantity order - quantity book\<rparr>) rest temp_list
       (filled_orders @ [book\<lparr>quantity := 0\<rparr>])"
  by (auto simp: crossable_def split: option.splits)

lemma cross_equal:
  "crossable k order book \<Longrightarrow> quantity order = quantity book \<Longrightarrow>
   cross k order (book # rest) temp_list filled_orders =
     cross k (order\<lparr>quantity := 0\<rparr>) rest temp_list
       (filled_orders @ [book\<lparr>quantity := 0\<rparr>, order\<lparr>quantity := 0\<rparr>])"
  by (auto simp: crossable_def split: option.splits)

lemma cross_less_limit:
  "crossable LIMIT order book \<Longrightarrow> quantity order < quantity book \<Longrightarrow>
   cross LIMIT order (book # rest) temp_list filled_orders =
     cross LIMIT (order\<lparr>quantity := 0\<rparr>) rest
       (temp_list @ [book\<lparr>quantity := quantity book - quantity order\<rparr>])
       (filled_orders @ [order\<lparr>quantity := 0\<rparr>, book\<lparr>quantity := quantity order\<rparr>])"
  by (auto simp: crossable_def split: option.splits)

lemma cross_less_other:
  "crossable k order book \<Longrightarrow> quantity order < quantity book \<Longrightarrow> k \<noteq> LIMIT \<Longrightarrow>
   cross k order (book # rest) temp_list filled_orders =
     (if price book = None then Inl rest
      else cross k (order\<lparr>price := price book, quantity := 0\<rparr>) rest
       (temp_list @ [book\<lparr>quantity := quantity book - quantity order\<rparr>])
       (filled_orders @ [order\<lparr>price := price book, quantity := 0\<rparr>,
                         book\<lparr>quantity := quantity order\<rparr>]))"
  by (auto simp: crossable_def split: option.splits)

lemma cross_cases:
  obtains (skip) "symbol book \<noteq> symbol order \<or> quantity order = 0"
  | (no_price) "symbol book = symbol order" "quantity order \<noteq> 0" "k \<noteq> MARKET"
      "price order = None \<or> price book = None"
  | (no_match) p r where "symbol book = symbol order" "quantity order \<noteq> 0" "k \<noteq> MARKET"
      "price order = Some p" "price book = Some r" "\<not> p \<le> r"
  | (greater) "crossable k order book" "quantity order > quantity book"
  | (equal) "crossable k order book" "quantity order = quantity book"
  | (less_limit) "k = LIMIT" "crossable LIMIT order book" "quantity order < quantity book"
  | (less_other) "k \<noteq> LIMIT" "crossable k order book" "quantity order < quantity book"
  unfolding crossable_def
  by (cases "price order"; cases "price book"; cases k) force+

section \<open>What one pass of the loop preserves\<close>

lemma total_quantity_simps [simp]:
  "total_quantity [] = 0"
  "total_quantity (x # xs) = quantity x + total_quantity xs"
  "total_quantity (xs @ ys) = total_quantity xs + total_quantity ys"
  by (simp_all add: total_quantity_def)

lemma total_quantity_mset: "mset xs = mset ys \<Longrightarrow> total_quantity xs = total_quantity ys"
  unfolding total_quantity_def
  by (metis mset_map sum_mset_sum_list)

lemma py_sorted_mset: "py_sorted key xs = Some ys \<Longrightarrow> mset ys = mset xs"
  by (auto simp: py_sorted_def split: if_splits)

lemma py_sorted_total: "py_sorted key xs = Some ys \<Longrightarrow> total_quantity ys = total_quantity xs"
  by (rule total_quantity_mset) (rule py_sorted_mset)

lemma cross_conserves:
  "cross k order book temp_list filled_orders = Inr (order', temp_list', filled_orders') \<Longrightarrow>
   total_quantity book + total_quantity temp_list - total_quantity temp_list'
     = quantity order - quantity order'"
proof (induction book arbitrary: order temp_list filled_orders)
  case Nil
  then show ?case by simp
next
  case (Cons b rest)
  note eq = Cons.prems
  show ?case
  proof (cases rule: cross_cases [where book = b and order = order and k = k])
    case skip
    with eq Cons.IH show ?thesis by (fastforce simp del: cross.simps simp: cross_skip)
  next
    case no_price
    with eq show ?thesis by (simp del: cross.simps add: cross_no_price)
  next
    case (no_match p r)
    with eq Cons.IH show ?thesis by (fastforce simp del: cross.simps simp: cross_no_match)
  next
    case greater
    with eq Cons.IH show ?thesis by (fastforce simp del: cross.simps simp: cross_greater)
  next
    case equal
    with eq Cons.IH show ?thesis by (fastforce simp del: cross.simps simp: cross_equal)
  next
    case less_limit
    with eq Cons.IH show ?thesis by (fastforce simp del: cross.simps simp: cross_less_limit)
  next
    case less_other
    with eq Cons.IH show ?thesis
      by (fastforce simp del: cross.simps simp: cross_less_other split: if_splits)
  qed
qed

lemma cross_quantity_nonneg:
  "cross k order book temp_list filled_orders = Inr (order', temp_list', filled_orders') \<Longrightarrow>
   0 \<le> quantity order \<Longrightarrow> 0 \<le> quantity order'"
proof (induction book arbitrary: order temp_list filled_orders)
  case Nil
  then show ?case by simp
next
  case (Cons b rest)
  note eq = Cons.prems
  show ?case
  proof (cases rule: cross_cases [where book = b and order = order and k = k])
    case skip
    with eq Cons.IH show ?thesis by (fastforce simp del: cross.simps simp: cross_skip)
  next
    case no_price
    with eq show ?thesis by (simp del: cross.simps add: cross_no_price)
  next
    case (no_match p r)
    with eq Cons.IH show ?thesis by (fastforce simp del: cross.simps simp: cross_no_match)
  next
    case greater
    with eq Cons.IH show ?thesis by (fastforce simp del: cross.simps simp: cross_greater)
  next
    case equal
    with eq show ?thesis by (auto simp del: cross.simps simp: cross_equal cross_zero)
  next
    case less_limit
    with eq show ?thesis by (auto simp del: cross.simps simp: cross_less_limit cross_zero)
  next
    case less_other
    with eq show ?thesis
      by (auto simp del: cross.simps simp: cross_less_other cross_zero split: if_splits)
  qed
qed

lemma cross_price_kept:
  "cross k order book temp_list filled_orders = Inr (order', temp_list', filled_orders') \<Longrightarrow>
   quantity order' \<noteq> 0 \<Longrightarrow> price order' = price order"
proof (induction book arbitrary: order temp_list filled_orders)
  case Nil
  then show ?case by simp
next
  case (Cons b rest)
  note eq = Cons.prems
  show ?case
  proof (cases rule: cross_cases [where book = b and order = order and k = k])
    case skip
    with eq Cons.IH show ?thesis by (fastforce simp del: cross.simps simp: cross_skip)
  next
    case no_price
    with eq show ?thesis by (simp del: cross.simps add: cross_no_price)
  next
    case (no_match p r)
    with eq Cons.IH show ?thesis by (fastforce simp del: cross.simps simp: cross_no_match)
  next
    case greater
    with eq Cons.IH show ?thesis by (fastforce simp del: cross.simps simp: cross_greater)
  next
    case equal
    with eq show ?thesis by (auto simp del: cross.simps simp: cross_equal cross_zero)
  next
    case less_limit
    with eq show ?thesis by (auto simp del: cross.simps simp: cross_less_limit cross_zero)
  next
    case less_other
    with eq show ?thesis
      by (auto simp del: cross.simps simp: cross_less_other cross_zero split: if_splits)
  qed
qed


section \<open>Market orders with quantity left (C1)\<close>

text \<open>
  C1. The claim: whatever quantity of a market order is left after the crossing scan is
  discarded, so that after \<open>handle_order\<close> no entry with the market order's identifier
  is in either book. The code does otherwise. At the empty engine, the order
  \<open>MarketOrder(3, "SYM", 30, BUY, 1)\<close> is appended to the list that becomes the ask
  book, and the sort of that book raises \<open>AttributeError\<close>, the order having no price:
  the call ends with an exception and the ask book holds the order with identifier 3.
\<close>

theorem market_remainder_posted_to_opposite_book:
  "MarketOrder 3 ''SYM'' 30 (Some BUY) 1 =
     Inr \<lparr>order_id = 3, symbol = ''SYM'', quantity = 30, side = Some BUY, time = 1,
          price = None, order_type = Some MARKET\<rparr>
   \<and> handle_order
       \<lparr>order_id = 3, symbol = ''SYM'', quantity = 30, side = Some BUY, time = 1,
        price = None, order_type = Some MARKET\<rparr> new_engine =
     Inl (AttributeError,
          \<lparr>bid_book = [],
           ask_book = [\<lparr>order_id = 3, symbol = ''SYM'', quantity = 30, side = Some BUY,
                         time = 1, price = None, order_type = Some MARKET\<rparr>]\<rparr>)"
  by (simp add: MarketOrder_def new_engine_def handler_defs)

section \<open>The price test of the limit and IOC handlers (C2)\<close>

text \<open>
  C2. The claim: a limit or IOC order is matched with a resting entry only when its price
  crosses the entry's price, which for a BUY order is \<open>incoming.price \<ge> resting.price\<close>.
  The test of the code is \<open>order.price <= book.price\<close> for both sides. A limit BUY of
  10 units at 100 against a resting ask of 40 units at 149 is matched, although 100 is
  below 149: two fill records are returned and the ask entry is left with 30 units.
\<close>

theorem limit_buy_matched_above_its_limit:
  "handle_limit_order
     \<lparr>order_id = 2, symbol = ''SYM'', quantity = 10, side = Some BUY, time = 2,
      price = Some 100, order_type = Some LIMIT\<rparr>
     \<lparr>bid_book = [],
      ask_book = [\<lparr>order_id = 10, symbol = ''SYM'', quantity = 40, side = Some SELL, time = 1,
                    price = Some 149, order_type = Some LIMIT\<rparr>]\<rparr> =
   Inr (([\<lparr>order_id = 2, symbol = ''SYM'', quantity = 0, side = Some BUY, time = 2,
            price = Some 100, order_type = Some LIMIT\<rparr>,
          \<lparr>order_id = 10, symbol = ''SYM'', quantity = 10, side = Some SELL, time = 1,
            price = Some 149, order_type = Some LIMIT\<rparr>],
         \<lparr>order_id = 2, symbol = ''SYM'', quantity = 0, side = Some BUY, time = 2,
            price = Some 100, order_type = Some LIMIT\<rparr>),
        \<lparr>bid_book = [],
         ask_book = [\<lparr>order_id = 10, symbol = ''SYM'', quantity = 30, side = Some SELL,
                       time = 1, price = Some 149, order_type = Some LIMIT\<rparr>]\<rparr>)"
  by (simp add: handler_defs)

text \<open>
  The other direction, Scenario B of the specification: a limit BUY at 150 against a
  resting ask at 149 crosses, and the code does not match it; the order rests in the
  bid book above the best ask.
\<close>

lemma limit_buy_at_crossing_price_not_matched:
  "handle_limit_order
     \<lparr>order_id = 2, symbol = ''SYM'', quantity = 100, side = Some BUY, time = 2,
      price = Some 150, order_type = Some LIMIT\<rparr>
     \<lparr>bid_book = [],
      ask_book = [\<lparr>order_id = 10, symbol = ''SYM'', quantity = 40, side = Some SELL, time = 1,
                    price = Some 149, order_type = Some LIMIT\<rparr>]\<rparr> =
   Inr (([],
         \<lparr>order_id = 2, symbol = ''SYM'', quantity = 100, side = Some BUY, time = 2,
            price = Some 150, order_type = Some LIMIT\<rparr>),
        \<lparr>bid_book = [\<lparr>order_id = 2, symbol = ''SYM'', quantity = 100, side = Some BUY,
                       time = 2, price = Some 150, order_type = Some LIMIT\<rparr>],
         ask_book = [\<lparr>order_id = 10, symbol = ''SYM'', quantity = 40, side = Some SELL,
                       time = 1, price = Some 149, order_type = Some LIMIT\<rparr>]\<rparr>)"
  by (simp add: handler_defs)

section \<open>The price of the fill records (C3)\<close>

text \<open>
  C3. The claim: every fill record carries the resting order's price, the record of the
  incoming leg too. The market and IOC handlers assign \<open>order.price = book.price\<close> in
  the branch \<open>book.quantity > order.quantity\<close>; the limit handler has no such
  assignment. A limit SELL of 10 units at 100 against a resting bid of 20 units at 150:
  the record of the incoming leg carries 100, the record of the resting leg 150.
\<close>

theorem limit_incoming_leg_keeps_its_own_price:
  "handle_limit_order
     \<lparr>order_id = 2, symbol = ''SYM'', quantity = 10, side = Some SELL, time = 2,
      price = Some 100, order_type = Some LIMIT\<rparr>
     \<lparr>bid_book = [\<lparr>order_id = 20, symbol = ''SYM'', quantity = 20, side = Some BUY, time = 1,
                    price = Some 150, order_type = Some LIMIT\<rparr>],
      ask_book = []\<rparr> =
   Inr (([\<lparr>order_id = 2, symbol = ''SYM'', quantity = 0, side = Some SELL, time = 2,
            price = Some 100, order_type = Some LIMIT\<rparr>,
          \<lparr>order_id = 20, symbol = ''SYM'', quantity = 10, side = Some BUY, time = 1,
            price = Some 150, order_type = Some LIMIT\<rparr>],
         \<lparr>order_id = 2, symbol = ''SYM'', quantity = 0, side = Some SELL, time = 2,
            price = Some 100, order_type = Some LIMIT\<rparr>),
        \<lparr>bid_book = [\<lparr>order_id = 20, symbol = ''SYM'', quantity = 10, side = Some BUY,
                       time = 1, price = Some 150, order_type = Some LIMIT\<rparr>],
         ask_book = []\<rparr>)"
  by (simp add: handler_defs)

text \<open>
  The branch of equal quantities has the assignment in no handler: an IOC SELL of 20
  units at 100 against the same bid returns the incoming leg with price 100.
\<close>

lemma ioc_equal_quantity_leg_keeps_its_own_price:
  "handle_ioc_order
     \<lparr>order_id = 2, symbol = ''SYM'', quantity = 20, side = Some SELL, time = 2,
      price = Some 100, order_type = Some IOC\<rparr>
     \<lparr>bid_book = [\<lparr>order_id = 20, symbol = ''SYM'', quantity = 20, side = Some BUY, time = 1,
                    price = Some 150, order_type = Some LIMIT\<rparr>],
      ask_book = []\<rparr> =
   Inr (([\<lparr>order_id = 20, symbol = ''SYM'', quantity = 0, side = Some BUY, time = 1,
            price = Some 150, order_type = Some LIMIT\<rparr>,
          \<lparr>order_id = 2, symbol = ''SYM'', quantity = 0, side = Some SELL, time = 2,
            price = Some 100, order_type = Some IOC\<rparr>],
         \<lparr>order_id = 2, symbol = ''SYM'', quantity = 0, side = Some SELL, time = 2,
            price = Some 100, order_type = Some IOC\<rparr>),
        \<lparr>bid_book = [], ask_book = []\<rparr>)"
  by (simp add: handler_defs)

section \<open>The order of the books in reachable states (C4)\<close>

lemma key_quantity_update [simp]:
  "bid_key (x\<lparr>quantity := q\<rparr>) = bid_key x" "ask_key (x\<lparr>quantity := q\<rparr>) = ask_key x"
  by (simp_all add: bid_key_def ask_key_def key_neg_price_time_def key_price_neg_time_def)

lemma sorted_map_drop_middle:
  "sorted (map K (xs @ x # ys)) \<Longrightarrow> sorted (map K (xs @ ys))"
  by (auto simp: sorted_append)

lemma py_sorted_ok:
  assumes "\<forall>x\<in>set xs. resting_ok x"
  shows "py_sorted key_neg_price_time xs = Some (sort_key bid_key xs)"
    and "py_sorted key_price_neg_time xs = Some (sort_key ask_key xs)"
proof -
  have b: "(\<lambda>x. the (key_neg_price_time x)) = bid_key"
    and a: "(\<lambda>x. the (key_price_neg_time x)) = ask_key"
    by (rule ext, simp add: bid_key_def ask_key_def)+
  from assms have "list_all (\<lambda>x. key_neg_price_time x \<noteq> None) xs"
    and "list_all (\<lambda>x. key_price_neg_time x \<noteq> None) xs"
    by (auto simp: list_all_iff resting_ok_def key_neg_price_time_def key_price_neg_time_def)
  then show "py_sorted key_neg_price_time xs = Some (sort_key bid_key xs)"
    and "py_sorted key_price_neg_time xs = Some (sort_key ask_key xs)"
    by (simp_all add: py_sorted_def a b)
qed

lemma sort_books_ok:
  assumes "\<forall>x\<in>set (bid_book e). resting_ok x" "\<forall>x\<in>set (ask_book e). resting_ok x"
  shows "\<exists>e'. sort_books e = Inr ((), e') \<and> books_ok e'"
  using assms
  by (simp add: sort_books_def py_sorted_ok books_ok_def)

lemma cross_limit_ok:
  assumes "\<forall>x\<in>set (temp_list @ book). resting_ok x"
    and "sorted (map K (temp_list @ book))"
    and "\<And>x q. K (x\<lparr>quantity := q\<rparr>) = K x"
    and "price order \<noteq> None" and "0 \<le> quantity order"
  shows "\<exists>q temp_list' filled_orders'.
     cross LIMIT order book temp_list filled_orders
       = Inr (order\<lparr>quantity := q\<rparr>, temp_list', filled_orders')
     \<and> 0 \<le> q \<and> (\<forall>x\<in>set temp_list'. resting_ok x) \<and> sorted (map K temp_list')"
  using assms(1,2,4,5)
proof (induction book arbitrary: order temp_list filled_orders)
  case Nil
  then show ?case by (auto intro!: exI [of _ "quantity order"])
next
  case (Cons b rest)
  note K = assms(3)
  from Cons.prems(1) have okb: "resting_ok b" and okt: "\<forall>x\<in>set (temp_list @ rest). resting_ok x"
    by simp_all
  from Cons.prems(2) have sdrop: "sorted (map K (temp_list @ rest))"
    by (rule sorted_map_drop_middle)
  have keep: "\<forall>x\<in>set ((temp_list @ [b]) @ rest). resting_ok x"
    "sorted (map K ((temp_list @ [b]) @ rest))"
    using Cons.prems(1,2) by simp_all
  let ?b' = "b\<lparr>quantity := quantity b - quantity order\<rparr>"
  have zero: "\<exists>q temp_list' filled_orders'.
     cross LIMIT (order\<lparr>quantity := 0\<rparr>) rest t2 f2
       = Inr (order\<lparr>quantity := q\<rparr>, temp_list', filled_orders')
     \<and> 0 \<le> q \<and> (\<forall>x\<in>set temp_list'. resting_ok x) \<and> sorted (map K temp_list')"
    if "\<forall>x\<in>set (t2 @ rest). resting_ok x" "sorted (map K (t2 @ rest))" for t2 f2
    using that by (auto simp: cross_zero intro!: exI [of _ 0])
  show ?case
  proof (cases rule: cross_cases [where book = b and order = order and k = LIMIT])
    case skip
    from Cons.IH [OF keep Cons.prems(3,4), of filled_orders] skip show ?thesis
      by (simp del: cross.simps add: cross_skip)
  next
    case no_price
    with okb Cons.prems(3) show ?thesis by (auto simp: resting_ok_def)
  next
    case (no_match p r)
    from Cons.IH [OF keep Cons.prems(3,4), of filled_orders] no_match show ?thesis
      by (simp del: cross.simps add: cross_no_match)
  next
    case greater
    let ?o = "order\<lparr>quantity := quantity order - quantity b\<rparr>"
    from greater(2) Cons.prems(3) have "price ?o \<noteq> None" "0 \<le> quantity ?o" by simp_all
    from Cons.IH [OF okt sdrop this, of "filled_orders @ [b\<lparr>quantity := 0\<rparr>]"] greater
    show ?thesis by (simp del: cross.simps add: cross_greater)
  next
    case equal
    with zero [OF okt sdrop] show ?thesis
      by (simp del: cross.simps add: cross_equal)
  next
    case less_limit
    from less_limit(3) okb have "resting_ok ?b'" by (simp add: resting_ok_def)
    with Cons.prems(1) have 1: "\<forall>x\<in>set ((temp_list @ [?b']) @ rest). resting_ok x" by simp
    from Cons.prems(2) have 2: "sorted (map K ((temp_list @ [?b']) @ rest))" by (simp add: K)
    from zero [OF 1 2] less_limit show ?thesis
      by (simp del: cross.simps add: cross_less_limit)
  next
    case less_other
    then show ?thesis by simp
  qed
qed

lemma handle_limit_order_ok:
  assumes ok: "books_ok e" and req: "limit_request (Submit order)"
  shows "\<exists>r e'. handle_order order e = Inr (r, e') \<and> books_ok e'"
proof -
  from req obtain sd where sd: "side order = Some sd" and ty: "order_type order = Some LIMIT"
    and pr: "price order \<noteq> None" and pos: "0 < quantity order"
    by auto
  show ?thesis
  proof (cases sd)
    case BUY
    from ok have 1: "\<forall>x\<in>set ([] @ ask_book e). resting_ok x"
      and 2: "sorted (map ask_key ([] @ ask_book e))"
      by (simp_all add: books_ok_def)
    from cross_limit_ok [OF 1 2 _ pr, of "[]"] pos obtain q temp_list' filled_orders' where
      c: "cross LIMIT order (ask_book e) [] [] = Inr (order\<lparr>quantity := q\<rparr>, temp_list', filled_orders')"
      and q: "0 \<le> q" and t: "\<forall>x\<in>set temp_list'. resting_ok x" and s: "sorted (map ask_key temp_list')"
      by auto
    show ?thesis
    proof (cases "0 < q")
      case True
      let ?e1 = "e\<lparr>ask_book := temp_list', bid_book := bid_book e @ [order\<lparr>quantity := q\<rparr>]\<rparr>"
      from ok t True pr have "\<forall>x\<in>set (bid_book ?e1). resting_ok x" "\<forall>x\<in>set (ask_book ?e1). resting_ok x"
        by (auto simp: books_ok_def resting_ok_def)
      from sort_books_ok [OF this] obtain e' where "sort_books ?e1 = Inr ((), e')" "books_ok e'"
        by auto
      with c True sd BUY ty show ?thesis
        by (simp add: handle_order_def drop_return_def handle_limit_order_def insert_limit_order_def)
    next
      case False
      from ok t s have "books_ok (e\<lparr>ask_book := temp_list'\<rparr>)" by (simp add: books_ok_def)
      with c False sd BUY ty show ?thesis
        by (simp add: handle_order_def drop_return_def handle_limit_order_def)
    qed
  next
    case SELL
    from ok have 1: "\<forall>x\<in>set ([] @ bid_book e). resting_ok x"
      and 2: "sorted (map bid_key ([] @ bid_book e))"
      by (simp_all add: books_ok_def)
    from cross_limit_ok [OF 1 2 _ pr, of "[]"] pos obtain q temp_list' filled_orders' where
      c: "cross LIMIT order (bid_book e) [] [] = Inr (order\<lparr>quantity := q\<rparr>, temp_list', filled_orders')"
      and q: "0 \<le> q" and t: "\<forall>x\<in>set temp_list'. resting_ok x" and s: "sorted (map bid_key temp_list')"
      by auto
    show ?thesis
    proof (cases "0 < q")
      case True
      let ?e1 = "e\<lparr>bid_book := temp_list', ask_book := ask_book e @ [order\<lparr>quantity := q\<rparr>]\<rparr>"
      from ok t True pr have "\<forall>x\<in>set (bid_book ?e1). resting_ok x" "\<forall>x\<in>set (ask_book ?e1). resting_ok x"
        by (auto simp: books_ok_def resting_ok_def)
      from sort_books_ok [OF this] obtain e' where "sort_books ?e1 = Inr ((), e')" "books_ok e'"
        by auto
      with c True sd SELL ty show ?thesis
        by (simp add: handle_order_def drop_return_def handle_limit_order_def insert_limit_order_def)
    next
      case False
      from ok t s have "books_ok (e\<lparr>bid_book := temp_list'\<rparr>)" by (simp add: books_ok_def)
      with c False sd SELL ty show ?thesis
        by (simp add: handle_order_def drop_return_def handle_limit_order_def)
    qed
  qed
qed


lemma del_first_ok:
  "del_first i xs = Some ys \<Longrightarrow> \<forall>x\<in>set xs. resting_ok x \<Longrightarrow> sorted (map K xs) \<Longrightarrow>
   (\<forall>x\<in>set ys. resting_ok x) \<and> sorted (map K ys)"
proof (induction xs arbitrary: ys)
  case Nil
  then show ?case by simp
next
  case (Cons x xs)
  show ?case
  proof (cases "order_id x = i")
    case True
    with Cons.prems show ?thesis by auto
  next
    case False
    with Cons.prems(1) obtain zs where zs: "del_first i xs = Some zs" and ys: "ys = x # zs"
      by auto
    from Cons.prems(2,3) have "\<forall>x\<in>set xs. resting_ok x" "sorted (map K xs)" by simp_all
    from Cons.IH [OF zs this] have ok: "\<forall>x\<in>set zs. resting_ok x" and so: "sorted (map K zs)"
      by simp_all
    have "set zs \<subseteq> set xs" using zs
    proof (induction xs arbitrary: zs)
      case Nil
      then show ?case by simp
    next
      case (Cons a as)
      then show ?case by (auto split: if_splits)
    qed
    with Cons.prems(3) so ok Cons.prems(2) ys show ?thesis by auto
  qed
qed

lemma cancel_order_ok: "books_ok e \<Longrightarrow> books_ok (snd (cancel_order i e))"
  by (auto simp: cancel_order_def books_ok_def split: option.splits dest: del_first_ok)

lemma amend_bids_ok:
  assumes K: "\<And>x q. K' (x\<lparr>quantity := q\<rparr>) = K' x" and q: "0 < q"
    and ok: "\<forall>x\<in>set xs. resting_ok x"
    and res: "amend_bids i q xs = Inl ys \<or> amend_bids i q xs = Inr (ys, f)"
  shows "(\<forall>x\<in>set ys. resting_ok x) \<and> map K' ys = map K' xs"
  using ok res
proof (induction xs arbitrary: ys f)
  case Nil
  then show ?case by auto
next
  case (Cons x xs)
  from Cons.prems(1) have okx: "resting_ok x" and okxs: "\<forall>x\<in>set xs. resting_ok x" by simp_all
  from okx q have okq: "resting_ok (x\<lparr>quantity := q\<rparr>)" by (simp add: resting_ok_def)
  note IH = Cons.IH [OF okxs]
  from Cons.prems(2) show ?case
    using okx okq okxs IH K
    by (auto split: if_splits sum.splits)
qed

lemma amend_quantity_ok:
  assumes "books_ok e" "0 < q"
  shows "books_ok (after_result (amend_quantity i q e))"
proof -
  from assms(1) have okb: "\<forall>x\<in>set (bid_book e). resting_ok x"
    and oka: "\<forall>x\<in>set (ask_book e). resting_ok x"
    and sb: "sorted (map bid_key (bid_book e))" and sa: "sorted (map ask_key (ask_book e))"
    by (simp_all add: books_ok_def)
  have *: "books_ok (e\<lparr>bid_book := ys\<rparr>)"
    if "amend_bids i q (bid_book e) = Inl ys \<or> amend_bids i q (bid_book e) = Inr (ys, f)" for ys f
  proof -
    from amend_bids_ok [of bid_key q "bid_book e" i ys f, OF _ assms(2) okb that]
    have "\<forall>x\<in>set ys. resting_ok x" "map bid_key ys = map bid_key (bid_book e)" by simp_all
    with oka sb sa show ?thesis by (simp add: books_ok_def)
  qed
  show ?thesis
    using *
    by (auto simp: amend_quantity_def after_result_def split: sum.splits option.splits if_splits)
qed

lemma request_step_ok:
  "books_ok e \<Longrightarrow> limit_request r \<Longrightarrow> books_ok (request_step e r)"
proof (cases r)
  case (Submit order)
  assume "books_ok e" "limit_request r"
  with Submit handle_limit_order_ok [of e order] show ?thesis
    by (auto simp: after_result_def)
next
  case (Amend i q)
  assume "books_ok e" "limit_request r"
  with Amend show ?thesis by (simp add: amend_quantity_ok)
next
  case (Cancel i)
  assume "books_ok e" "limit_request r"
  with Cancel show ?thesis by (simp add: cancel_order_ok)
qed

lemma run_requests_ok: "list_all limit_request rs \<Longrightarrow> books_ok (run_requests rs)"
proof (induction rs rule: rev_induct)
  case Nil
  then show ?case by (simp add: run_requests_def new_engine_def books_ok_def)
next
  case (snoc r rs)
  then have "books_ok (run_requests rs)" "limit_request r" by simp_all
  from request_step_ok [OF this] show ?case by (simp add: run_requests_def)
qed

lemma sorted_bid_key:
  assumes "\<forall>x\<in>set xs. resting_ok x" "sorted (map bid_key xs)"
  shows "sorted_wrt bid_before xs"
proof -
  from assms(2) have "sorted_wrt (\<lambda>x y. bid_key x \<le> bid_key y) xs"
    by (simp add: sorted_map)
  then show ?thesis
  proof (rule sorted_wrt_mono_rel [rotated])
    fix x y assume xy: "x \<in> set xs" "y \<in> set xs" and le: "bid_key x \<le> bid_key y"
    from assms(1) xy have "price x \<noteq> None" "price y \<noteq> None"
      by (simp_all add: resting_ok_def)
    then obtain p r where "price x = Some p" "price y = Some r"
      by blast
    with le show "bid_before x y"
      by (auto simp: bid_key_def bid_before_def key_neg_price_time_def less_eq_prod_def)
  qed
qed

lemma sorted_ask_key:
  assumes "\<forall>x\<in>set xs. resting_ok x" "sorted (map ask_key xs)"
  shows "sorted_wrt ask_before_inserted xs"
proof -
  from assms(2) have "sorted_wrt (\<lambda>x y. ask_key x \<le> ask_key y) xs"
    by (simp add: sorted_map)
  then show ?thesis
  proof (rule sorted_wrt_mono_rel [rotated])
    fix x y assume xy: "x \<in> set xs" "y \<in> set xs" and le: "ask_key x \<le> ask_key y"
    from assms(1) xy have "price x \<noteq> None" "price y \<noteq> None"
      by (simp_all add: resting_ok_def)
    then obtain p r where "price x = Some p" "price y = Some r"
      by blast
    with le show "ask_before_inserted x y"
      by (auto simp: ask_key_def ask_before_inserted_def key_price_neg_time_def less_eq_prod_def)
  qed
qed

lemma books_ok_inserted_invariant: "books_ok e \<Longrightarrow> inserted_invariant e"
  by (auto simp: books_ok_def inserted_invariant_def list_all_iff sorted_bid_key sorted_ask_key
      resting_ok_def)

text \<open>
  C4. The claim: in every state reached from the empty engine by submit, amend and cancel
  calls, every resting order has a positive quantity, the bid book is sorted by price
  descending and time ascending, and the ask book by price ascending and time
  ascending. The code breaks it. \<open>insert_limit_order\<close> sorts the ask book by
  \<open>(price, -time)\<close>: after two limit SELL orders at the price 100, submitted at the times
  1 and 2, the ask book holds the later order first. The class docstring says ``among
  same prices, earlier orders execute first'', and the BUY branches of the market and
  IOC handlers sort the same book by \<open>(price, time)\<close>, with the comment ``earliest
  first''.
\<close>

theorem later_ask_stands_first:
  "run_requests
       [Submit \<lparr>order_id = 1, symbol = ''SYM'', quantity = 10, side = Some SELL, time = 1,
                  price = Some 100, order_type = Some LIMIT\<rparr>,
         Submit \<lparr>order_id = 2, symbol = ''SYM'', quantity = 10, side = Some SELL, time = 2,
                  price = Some 100, order_type = Some LIMIT\<rparr>] =
     \<lparr>bid_book = [],
      ask_book = [\<lparr>order_id = 2, symbol = ''SYM'', quantity = 10, side = Some SELL, time = 2,
                    price = Some 100, order_type = Some LIMIT\<rparr>,
                  \<lparr>order_id = 1, symbol = ''SYM'', quantity = 10, side = Some SELL, time = 1,
                    price = Some 100, order_type = Some LIMIT\<rparr>]\<rparr>
   \<and> \<not> book_invariant
       (run_requests
       [Submit \<lparr>order_id = 1, symbol = ''SYM'', quantity = 10, side = Some SELL, time = 1,
                  price = Some 100, order_type = Some LIMIT\<rparr>,
         Submit \<lparr>order_id = 2, symbol = ''SYM'', quantity = 10, side = Some SELL, time = 2,
                  price = Some 100, order_type = Some LIMIT\<rparr>])"
  by (simp add: run_defs handler_defs book_invariant_def ask_before_def)

text \<open>
  The engine has two orders for the one ask book. A market BUY or IOC BUY that returns
  sorts it by \<open>(price, time)\<close>: after the two asks above, an IOC BUY at 200, which the
  code matches with nothing, puts the earlier ask first, and the state is in the
  claimed order again.
\<close>

lemma ioc_buy_sorts_ask_book_by_time_ascending:
  "run_requests
       [Submit \<lparr>order_id = 1, symbol = ''SYM'', quantity = 10, side = Some SELL, time = 1,
                  price = Some 100, order_type = Some LIMIT\<rparr>,
         Submit \<lparr>order_id = 2, symbol = ''SYM'', quantity = 10, side = Some SELL, time = 2,
                  price = Some 100, order_type = Some LIMIT\<rparr>,
         Submit \<lparr>order_id = 3, symbol = ''SYM'', quantity = 5, side = Some BUY, time = 3,
                  price = Some 200, order_type = Some IOC\<rparr>] =
     \<lparr>bid_book = [],
      ask_book = [\<lparr>order_id = 1, symbol = ''SYM'', quantity = 10, side = Some SELL, time = 1,
                  price = Some 100, order_type = Some LIMIT\<rparr>,
                  \<lparr>order_id = 2, symbol = ''SYM'', quantity = 10, side = Some SELL, time = 2,
                  price = Some 100, order_type = Some LIMIT\<rparr>]\<rparr>
   \<and> book_invariant
       (run_requests
       [Submit \<lparr>order_id = 1, symbol = ''SYM'', quantity = 10, side = Some SELL, time = 1,
                  price = Some 100, order_type = Some LIMIT\<rparr>,
         Submit \<lparr>order_id = 2, symbol = ''SYM'', quantity = 10, side = Some SELL, time = 2,
                  price = Some 100, order_type = Some LIMIT\<rparr>,
         Submit \<lparr>order_id = 3, symbol = ''SYM'', quantity = 5, side = Some BUY, time = 3,
                  price = Some 200, order_type = Some IOC\<rparr>])
   \<and> \<not> inserted_invariant
       (run_requests
       [Submit \<lparr>order_id = 1, symbol = ''SYM'', quantity = 10, side = Some SELL, time = 1,
                  price = Some 100, order_type = Some LIMIT\<rparr>,
         Submit \<lparr>order_id = 2, symbol = ''SYM'', quantity = 10, side = Some SELL, time = 2,
                  price = Some 100, order_type = Some LIMIT\<rparr>,
         Submit \<lparr>order_id = 3, symbol = ''SYM'', quantity = 5, side = Some BUY, time = 3,
                  price = Some 200, order_type = Some IOC\<rparr>])"
  by (simp add: run_defs handler_defs book_invariant_def inserted_invariant_def ask_before_def
      ask_before_inserted_def)

text \<open>
  What the requests that only reach \<open>insert_limit_order\<close> keep: submitting limit orders,
  amending to a positive quantity and cancelling leave every resting order with a
  positive quantity, the bid book sorted by price descending and time ascending, and
  the ask book sorted by price ascending and, at one price, time descending. So the
  later ask stands first in every such state with two asks at one price, not only in
  the one above.
\<close>

lemma limit_requests_keep_books_sorted:
  "list_all limit_request rs \<Longrightarrow> inserted_invariant (run_requests rs)"
  by (rule books_ok_inserted_invariant) (rule run_requests_ok)

text \<open>
  An instance: two asks at one price, a bid that the code does not match with them,
  an amendment of the bid to 2 units and the cancellation of the first ask.
\<close>

lemma limit_requests_keep_books_sorted_instance:
  "list_all limit_request
       [Submit \<lparr>order_id = 1, symbol = ''SYM'', quantity = 10, side = Some SELL, time = 1,
                  price = Some 100, order_type = Some LIMIT\<rparr>,
         Submit \<lparr>order_id = 2, symbol = ''SYM'', quantity = 10, side = Some SELL, time = 2,
                  price = Some 100, order_type = Some LIMIT\<rparr>,
         Submit \<lparr>order_id = 3, symbol = ''SYM'', quantity = 5, side = Some BUY, time = 3,
                  price = Some 110, order_type = Some LIMIT\<rparr>,
         Amend 3 2,
         Cancel 1]
   \<and> run_requests
       [Submit \<lparr>order_id = 1, symbol = ''SYM'', quantity = 10, side = Some SELL, time = 1,
                  price = Some 100, order_type = Some LIMIT\<rparr>,
         Submit \<lparr>order_id = 2, symbol = ''SYM'', quantity = 10, side = Some SELL, time = 2,
                  price = Some 100, order_type = Some LIMIT\<rparr>,
         Submit \<lparr>order_id = 3, symbol = ''SYM'', quantity = 5, side = Some BUY, time = 3,
                  price = Some 110, order_type = Some LIMIT\<rparr>,
         Amend 3 2,
         Cancel 1] =
     \<lparr>bid_book = [\<lparr>order_id = 3, symbol = ''SYM'', quantity = 2, side = Some BUY, time = 3,
                    price = Some 110, order_type = Some LIMIT\<rparr>],
      ask_book = [\<lparr>order_id = 2, symbol = ''SYM'', quantity = 10, side = Some SELL, time = 2,
                    price = Some 100, order_type = Some LIMIT\<rparr>]\<rparr>
   \<and> inserted_invariant
       (run_requests
       [Submit \<lparr>order_id = 1, symbol = ''SYM'', quantity = 10, side = Some SELL, time = 1,
                  price = Some 100, order_type = Some LIMIT\<rparr>,
         Submit \<lparr>order_id = 2, symbol = ''SYM'', quantity = 10, side = Some SELL, time = 2,
                  price = Some 100, order_type = Some LIMIT\<rparr>,
         Submit \<lparr>order_id = 3, symbol = ''SYM'', quantity = 5, side = Some BUY, time = 3,
                  price = Some 110, order_type = Some LIMIT\<rparr>,
         Amend 3 2,
         Cancel 1])"
  using limit_requests_keep_books_sorted [of
      "[Submit \<lparr>order_id = 1, symbol = ''SYM'', quantity = 10, side = Some SELL, time = 1,
                  price = Some 100, order_type = Some LIMIT\<rparr>,
         Submit \<lparr>order_id = 2, symbol = ''SYM'', quantity = 10, side = Some SELL, time = 2,
                  price = Some 100, order_type = Some LIMIT\<rparr>,
         Submit \<lparr>order_id = 3, symbol = ''SYM'', quantity = 5, side = Some BUY, time = 3,
                  price = Some 110, order_type = Some LIMIT\<rparr>,
         Amend 3 2,
         Cancel 1]"]
  by (simp add: run_defs handler_defs amend_quantity_def cancel_order_def)

text \<open>
  The books leave the claimed order in two more ways. The SELL branches of the IOC and
  market handlers sort the bid book by \<open>(price, time)\<close>, that is by price ascending:
  after two limit BUY orders at 100 and 101, an IOC SELL at 200, which matches nothing,
  leaves the bid at 100 before the bid at 101. And \<open>amend_quantity\<close> accepts the new
  quantity 0 for a resting bid, which stays in the book.
\<close>

lemma ioc_sell_sorts_bid_book_ascending:
  "run_requests
       [Submit \<lparr>order_id = 1, symbol = ''SYM'', quantity = 10, side = Some BUY, time = 1,
                  price = Some 100, order_type = Some LIMIT\<rparr>,
         Submit \<lparr>order_id = 2, symbol = ''SYM'', quantity = 10, side = Some BUY, time = 2,
                  price = Some 101, order_type = Some LIMIT\<rparr>,
         Submit \<lparr>order_id = 3, symbol = ''SYM'', quantity = 5, side = Some SELL, time = 3,
                  price = Some 200, order_type = Some IOC\<rparr>] =
     \<lparr>bid_book = [\<lparr>order_id = 1, symbol = ''SYM'', quantity = 10, side = Some BUY, time = 1,
                    price = Some 100, order_type = Some LIMIT\<rparr>,
                  \<lparr>order_id = 2, symbol = ''SYM'', quantity = 10, side = Some BUY, time = 2,
                    price = Some 101, order_type = Some LIMIT\<rparr>],
      ask_book = []\<rparr>
   \<and> \<not> book_invariant
       (run_requests
       [Submit \<lparr>order_id = 1, symbol = ''SYM'', quantity = 10, side = Some BUY, time = 1,
                  price = Some 100, order_type = Some LIMIT\<rparr>,
         Submit \<lparr>order_id = 2, symbol = ''SYM'', quantity = 10, side = Some BUY, time = 2,
                  price = Some 101, order_type = Some LIMIT\<rparr>,
         Submit \<lparr>order_id = 3, symbol = ''SYM'', quantity = 5, side = Some SELL, time = 3,
                  price = Some 200, order_type = Some IOC\<rparr>])
   \<and> book_invariant
       (run_requests
       [Submit \<lparr>order_id = 1, symbol = ''SYM'', quantity = 10, side = Some BUY, time = 1,
                  price = Some 100, order_type = Some LIMIT\<rparr>,
         Submit \<lparr>order_id = 2, symbol = ''SYM'', quantity = 10, side = Some BUY, time = 2,
                  price = Some 101, order_type = Some LIMIT\<rparr>])"
  by (simp add: run_defs handler_defs book_invariant_def bid_before_def)

lemma amend_to_zero_leaves_empty_order:
  "run_requests
       [Submit \<lparr>order_id = 1, symbol = ''SYM'', quantity = 10, side = Some BUY, time = 1,
                  price = Some 100, order_type = Some LIMIT\<rparr>,
         Amend 1 0] =
     \<lparr>bid_book = [\<lparr>order_id = 1, symbol = ''SYM'', quantity = 0, side = Some BUY, time = 1,
                    price = Some 100, order_type = Some LIMIT\<rparr>],
      ask_book = []\<rparr>"
  by (simp add: run_defs handler_defs amend_quantity_def)

section \<open>The record of a consumed resting entry (C5)\<close>

text \<open>
  C5. The claim: when the incoming order's remaining quantity exceeds the resting entry's
  quantity, one fill record is emitted for the resting leg, with the resting entry's
  quantity before the match and the resting price; the entry leaves the book and the
  incoming quantity decreases by the resting quantity. In the code the record is the
  resting object itself, and \<open>book.quantity = 0\<close> follows \<open>filled_orders.append(book)\<close>:
  the record that \<open>handle_limit_order\<close> returns has quantity 0. A limit SELL of 100 units
  at 149 against a resting bid of 40 units at 150 returns one record, for identifier 20,
  with quantity 0 and not 40; the rest of the claim holds there (price 150, the bid
  book empty, 60 units left and posted).
\<close>

theorem consumed_resting_leg_recorded_with_quantity_zero:
  "handle_limit_order
     \<lparr>order_id = 2, symbol = ''SYM'', quantity = 100, side = Some SELL, time = 2,
      price = Some 149, order_type = Some LIMIT\<rparr>
     \<lparr>bid_book = [\<lparr>order_id = 20, symbol = ''SYM'', quantity = 40, side = Some BUY, time = 1,
                    price = Some 150, order_type = Some LIMIT\<rparr>],
      ask_book = []\<rparr> =
   Inr (([\<lparr>order_id = 20, symbol = ''SYM'', quantity = 0, side = Some BUY, time = 1,
            price = Some 150, order_type = Some LIMIT\<rparr>],
         \<lparr>order_id = 2, symbol = ''SYM'', quantity = 60, side = Some SELL, time = 2,
            price = Some 149, order_type = Some LIMIT\<rparr>),
        \<lparr>bid_book = [],
         ask_book = [\<lparr>order_id = 2, symbol = ''SYM'', quantity = 60, side = Some SELL,
                       time = 2, price = Some 149, order_type = Some LIMIT\<rparr>]\<rparr>)"
  by (simp add: handler_defs)

section \<open>What \<open>handle_order\<close> returns (C6)\<close>

lemma cross_side_kept:
  "cross k order book temp_list filled_orders = Inr (order', temp_list', filled_orders') \<Longrightarrow>
   side order' = side order"
proof (induction book arbitrary: order temp_list filled_orders)
  case Nil
  then show ?case by simp
next
  case (Cons b rest)
  note eq = Cons.prems
  show ?case
  proof (cases rule: cross_cases [where book = b and order = order and k = k])
    case skip
    with eq Cons.IH show ?thesis by (fastforce simp del: cross.simps simp: cross_skip)
  next
    case no_price
    with eq show ?thesis by (simp del: cross.simps add: cross_no_price)
  next
    case (no_match p r)
    with eq Cons.IH show ?thesis by (fastforce simp del: cross.simps simp: cross_no_match)
  next
    case greater
    with eq Cons.IH show ?thesis by (fastforce simp del: cross.simps simp: cross_greater)
  next
    case equal
    with eq show ?thesis by (auto simp del: cross.simps simp: cross_equal cross_zero)
  next
    case less_limit
    with eq show ?thesis by (auto simp del: cross.simps simp: cross_less_limit cross_zero)
  next
    case less_other
    with eq show ?thesis
      by (auto simp del: cross.simps simp: cross_less_other cross_zero split: if_splits)
  qed
qed


lemma handle_limit_order_cases:
  assumes "side order = Some sd"
    and "handle_limit_order order e = Inr ((filled_orders, order'), e')"
  obtains temp_list where
    "cross LIMIT order (opposite_book sd e) [] [] = Inr (order', temp_list, filled_orders)"
    "if 0 < quantity order'
     then insert_limit_order order' (set_opposite_book sd temp_list e) = Inr ((), e')
     else e' = set_opposite_book sd temp_list e"
  using assms
  by (cases sd) (auto simp: handle_limit_order_def split: sum.splits if_splits)




text \<open>
  For market and IOC orders the docstring of \<open>handle_order\<close> promises the list of fills,
  and the value is \<open>None\<close> all the same: Scenario C of the specification, a market SELL
  of 30 units against a resting bid of 100 units at 150.
\<close>

lemma handle_order_drops_market_fills:
  "handle_market_order
     \<lparr>order_id = 3, symbol = ''SYM'', quantity = 30, side = Some SELL, time = 2,
       price = None, order_type = Some MARKET\<rparr>
     \<lparr>bid_book = [\<lparr>order_id = 20, symbol = ''SYM'', quantity = 100, side = Some BUY, time = 1,
                    price = Some 150, order_type = Some LIMIT\<rparr>],
      ask_book = []\<rparr> =
   Inr (([\<lparr>order_id = 3, symbol = ''SYM'', quantity = 0, side = Some SELL, time = 2,
            price = Some 150, order_type = Some MARKET\<rparr>,
          \<lparr>order_id = 20, symbol = ''SYM'', quantity = 30, side = Some BUY, time = 1,
            price = Some 150, order_type = Some LIMIT\<rparr>],
         \<lparr>order_id = 3, symbol = ''SYM'', quantity = 0, side = Some SELL, time = 2,
            price = Some 150, order_type = Some MARKET\<rparr>),
        \<lparr>bid_book = [\<lparr>order_id = 20, symbol = ''SYM'', quantity = 70, side = Some BUY, time = 1,
                        price = Some 150, order_type = Some LIMIT\<rparr>],
         ask_book = []\<rparr>)
   \<and> handle_order
     \<lparr>order_id = 3, symbol = ''SYM'', quantity = 30, side = Some SELL, time = 2,
       price = None, order_type = Some MARKET\<rparr>
     \<lparr>bid_book = [\<lparr>order_id = 20, symbol = ''SYM'', quantity = 100, side = Some BUY, time = 1,
                    price = Some 150, order_type = Some LIMIT\<rparr>],
      ask_book = []\<rparr> =
   Inr ((None,
         \<lparr>order_id = 3, symbol = ''SYM'', quantity = 0, side = Some SELL, time = 2,
            price = Some 150, order_type = Some MARKET\<rparr>),
        \<lparr>bid_book = [\<lparr>order_id = 20, symbol = ''SYM'', quantity = 70, side = Some BUY, time = 1,
                        price = Some 150, order_type = Some LIMIT\<rparr>],
         ask_book = []\<rparr>)"
  by (simp add: handler_defs)

lemma handle_order_returns_None:
  "handle_order order e = Inr ((r, order'), e') \<Longrightarrow> r = None"
  by (auto simp: handle_order_def drop_return_def split: option.splits OrderType.splits sum.splits)

section \<open>\<open>amend_quantity\<close> (C7)\<close>

lemma amend_bids_absent:
  "\<forall>x\<in>set xs. order_id x \<noteq> i \<Longrightarrow> amend_bids i q xs = Inr (xs, False)"
  by (induction xs) auto

lemma amend_bids_found_tail:
  "\<forall>x\<in>set ys. order_id x \<noteq> i \<Longrightarrow> order_id b = i \<Longrightarrow>
   amend_bids i q (b # ys) =
     (if quantity b < q then Inl (b # ys) else Inr (b\<lparr>quantity := q\<rparr> # ys, True))"
  by (simp add: amend_bids_absent)

lemma amend_bids_once:
  "\<forall>x\<in>set xs. order_id x \<noteq> i \<Longrightarrow> \<forall>x\<in>set ys. order_id x \<noteq> i \<Longrightarrow> order_id b = i \<Longrightarrow>
   amend_bids i q (xs @ b # ys) =
     (if quantity b < q then Inl (xs @ b # ys) else Inr (xs @ b\<lparr>quantity := q\<rparr> # ys, True))"
proof (induction xs)
  case Nil
  then show ?case by (simp add: amend_bids_absent)
next
  case (Cons x xs)
  then have "order_id x \<noteq> i" by simp
  moreover from Cons have "amend_bids i q (xs @ b # ys) =
     (if quantity b < q then Inl (xs @ b # ys) else Inr (xs @ b\<lparr>quantity := q\<rparr> # ys, True))"
    by simp
  ultimately show ?case by simp
qed

lemma amend_asks_first:
  "\<forall>x\<in>set xs. order_id x \<noteq> i \<Longrightarrow> order_id a = i \<Longrightarrow>
   amend_asks i q (xs @ a # ys) =
     Some (if quantity a < q then NewQuantityNotSmaller else TypeError)"
  by (induction xs) auto

text \<open>
  C7. The claim: for a resting order with identifier \<open>id\<close> and quantity \<open>c\<close>,
  \<open>amend(id, q)\<close> succeeds if and only if \<open>q < c\<close>, and for every \<open>q \<ge> c\<close> it fails
  with \<open>NewQuantityNotSmaller\<close>, the books unchanged. The guard of the code is
  \<open>quantity > bid.quantity\<close>: the request \<open>q = c\<close> raises nothing. For the resting bid
  of 100 units with identifier 20, \<open>amend_quantity(20, 100)\<close> returns normally.
\<close>

theorem amend_to_equal_quantity_is_accepted:
  "amend_quantity 20 100
     \<lparr>bid_book = [\<lparr>order_id = 20, symbol = ''SYM'', quantity = 100, side = Some BUY, time = 1,
                    price = Some 150, order_type = Some LIMIT\<rparr>],
      ask_book = []\<rparr> =
   Inr ((),
     \<lparr>bid_book = [\<lparr>order_id = 20, symbol = ''SYM'', quantity = 100, side = Some BUY, time = 1,
                    price = Some 150, order_type = Some LIMIT\<rparr>],
      ask_book = []\<rparr>)
   \<and> amend_quantity 20 100
     \<lparr>bid_book = [\<lparr>order_id = 20, symbol = ''SYM'', quantity = 100, side = Some BUY, time = 1,
                    price = Some 150, order_type = Some LIMIT\<rparr>],
      ask_book = []\<rparr> \<noteq>
   Inl (NewQuantityNotSmaller,
     \<lparr>bid_book = [\<lparr>order_id = 20, symbol = ''SYM'', quantity = 100, side = Some BUY, time = 1,
                    price = Some 150, order_type = Some LIMIT\<rparr>],
      ask_book = []\<rparr>)"
  by (simp add: amend_quantity_def)

text \<open>
  C7 as amended. For an order resting in the bid book under an identifier that no other
  bid carries: \<open>amend(id, q)\<close> fails with \<open>NewQuantityNotSmaller\<close>, both books
  unchanged, when \<open>q\<close> is greater than the order's quantity, and otherwise (\<open>q\<close> smaller
  or equal) it sets the order's quantity to \<open>q\<close> and changes nothing else: the order
  keeps its price, its time and its position, and every other entry is as it was. For
  an order resting in the ask book, with no bid under its identifier, a greater \<open>q\<close>
  fails with \<open>NewQuantityNotSmaller\<close>, both books unchanged. (What the ask side does with
  a quantity that is not greater is left out of the statement.)
\<close>

theorem amend_quantity_guard:
  "(bid_book e = xs @ b # ys \<and> order_id b = i \<and> (\<forall>x\<in>set (xs @ ys). order_id x \<noteq> i) \<longrightarrow>
      (quantity b < q \<longrightarrow> amend_quantity i q e = Inl (NewQuantityNotSmaller, e)) \<and>
      (q \<le> quantity b \<longrightarrow>
         amend_quantity i q e = Inr ((), e\<lparr>bid_book := xs @ b\<lparr>quantity := q\<rparr> # ys\<rparr>)))
   \<and> ((\<forall>x\<in>set (bid_book e'). order_id x \<noteq> i') \<and> ask_book e' = xs' @ a # ys' \<and>
       order_id a = i' \<and> (\<forall>x\<in>set xs'. order_id x \<noteq> i') \<and> quantity a < q' \<longrightarrow>
      amend_quantity i' q' e' = Inl (NewQuantityNotSmaller, e'))"
proof (intro conjI impI)
  assume h: "bid_book e = xs @ b # ys \<and> order_id b = i \<and> (\<forall>x\<in>set (xs @ ys). order_id x \<noteq> i)"
  then have once: "amend_bids i q (bid_book e) =
     (if quantity b < q then Inl (bid_book e) else Inr (xs @ b\<lparr>quantity := q\<rparr> # ys, True))"
    using amend_bids_once [of xs i ys b q] by simp
  { assume "quantity b < q"
    with once show "amend_quantity i q e = Inl (NewQuantityNotSmaller, e)"
      by (simp add: amend_quantity_def) }
  { assume "q \<le> quantity b"
    with once show "amend_quantity i q e = Inr ((), e\<lparr>bid_book := xs @ b\<lparr>quantity := q\<rparr> # ys\<rparr>)"
      by (simp add: amend_quantity_def) }
next
  assume h: "(\<forall>x\<in>set (bid_book e'). order_id x \<noteq> i') \<and> ask_book e' = xs' @ a # ys' \<and>
       order_id a = i' \<and> (\<forall>x\<in>set xs'. order_id x \<noteq> i') \<and> quantity a < q'"
  then have "amend_bids i' q' (bid_book e') = Inr (bid_book e', False)"
    by (simp add: amend_bids_absent)
  moreover from h have "amend_asks i' q' (ask_book e') = Some NewQuantityNotSmaller"
    using amend_asks_first [of xs' i' a q' ys'] by simp
  ultimately show "amend_quantity i' q' e' = Inl (NewQuantityNotSmaller, e')"
    by (simp add: amend_quantity_def)
qed

text \<open>
  The witness: the bid with identifier 21 and 30 units, second in the bid book, refuses
  31 units and takes 10 units; the ask with identifier 10 and 40 units refuses 41 units.
\<close>

theorem amend_quantity_guard_witness:
  "amend_quantity 21 31
     \<lparr>bid_book = [\<lparr>order_id = 20, symbol = ''SYM'', quantity = 100, side = Some BUY, time = 1,
                    price = Some 150, order_type = Some LIMIT\<rparr>,
                   \<lparr>order_id = 21, symbol = ''SYM'', quantity = 30, side = Some BUY, time = 2,
                    price = Some 140, order_type = Some LIMIT\<rparr>],
      ask_book = [\<lparr>order_id = 10, symbol = ''SYM'', quantity = 40, side = Some SELL, time = 3,
                    price = Some 160, order_type = Some LIMIT\<rparr>]\<rparr> =
   Inl (NewQuantityNotSmaller,
     \<lparr>bid_book = [\<lparr>order_id = 20, symbol = ''SYM'', quantity = 100, side = Some BUY, time = 1,
                    price = Some 150, order_type = Some LIMIT\<rparr>,
                   \<lparr>order_id = 21, symbol = ''SYM'', quantity = 30, side = Some BUY, time = 2,
                    price = Some 140, order_type = Some LIMIT\<rparr>],
      ask_book = [\<lparr>order_id = 10, symbol = ''SYM'', quantity = 40, side = Some SELL, time = 3,
                    price = Some 160, order_type = Some LIMIT\<rparr>]\<rparr>)
   \<and> amend_quantity 21 10
     \<lparr>bid_book = [\<lparr>order_id = 20, symbol = ''SYM'', quantity = 100, side = Some BUY, time = 1,
                    price = Some 150, order_type = Some LIMIT\<rparr>,
                   \<lparr>order_id = 21, symbol = ''SYM'', quantity = 30, side = Some BUY, time = 2,
                    price = Some 140, order_type = Some LIMIT\<rparr>],
      ask_book = [\<lparr>order_id = 10, symbol = ''SYM'', quantity = 40, side = Some SELL, time = 3,
                    price = Some 160, order_type = Some LIMIT\<rparr>]\<rparr> =
   Inr ((),
     \<lparr>bid_book = [\<lparr>order_id = 20, symbol = ''SYM'', quantity = 100, side = Some BUY, time = 1,
                    price = Some 150, order_type = Some LIMIT\<rparr>,
                   \<lparr>order_id = 21, symbol = ''SYM'', quantity = 10, side = Some BUY, time = 2,
                    price = Some 140, order_type = Some LIMIT\<rparr>],
      ask_book = [\<lparr>order_id = 10, symbol = ''SYM'', quantity = 40, side = Some SELL, time = 3,
                    price = Some 160, order_type = Some LIMIT\<rparr>]\<rparr>)
   \<and> amend_quantity 10 41
     \<lparr>bid_book = [\<lparr>order_id = 20, symbol = ''SYM'', quantity = 100, side = Some BUY, time = 1,
                    price = Some 150, order_type = Some LIMIT\<rparr>,
                   \<lparr>order_id = 21, symbol = ''SYM'', quantity = 30, side = Some BUY, time = 2,
                    price = Some 140, order_type = Some LIMIT\<rparr>],
      ask_book = [\<lparr>order_id = 10, symbol = ''SYM'', quantity = 40, side = Some SELL, time = 3,
                    price = Some 160, order_type = Some LIMIT\<rparr>]\<rparr> =
   Inl (NewQuantityNotSmaller,
     \<lparr>bid_book = [\<lparr>order_id = 20, symbol = ''SYM'', quantity = 100, side = Some BUY, time = 1,
                    price = Some 150, order_type = Some LIMIT\<rparr>,
                   \<lparr>order_id = 21, symbol = ''SYM'', quantity = 30, side = Some BUY, time = 2,
                    price = Some 140, order_type = Some LIMIT\<rparr>],
      ask_book = [\<lparr>order_id = 10, symbol = ''SYM'', quantity = 40, side = Some SELL, time = 3,
                    price = Some 160, order_type = Some LIMIT\<rparr>]\<rparr>)"
proof -
  let ?b1 = "\<lparr>order_id = 20, symbol = ''SYM'', quantity = 100, side = Some BUY, time = 1,
               price = Some 150, order_type = Some LIMIT\<rparr>"
  let ?b2 = "\<lparr>order_id = 21, symbol = ''SYM'', quantity = 30, side = Some BUY, time = 2,
               price = Some 140, order_type = Some LIMIT\<rparr>"
  let ?a = "\<lparr>order_id = 10, symbol = ''SYM'', quantity = 40, side = Some SELL, time = 3,
              price = Some 160, order_type = Some LIMIT\<rparr>"
  let ?e = "\<lparr>bid_book = [?b1, ?b2], ask_book = [?a]\<rparr>"
  have up: "amend_quantity 21 31 ?e = Inl (NewQuantityNotSmaller, ?e)"
    using amend_quantity_guard [of ?e "[?b1]" ?b2 "[]" 21 31 ?e 10 "[]" ?a "[]" 41]
    by simp
  have down: "amend_quantity 21 10 ?e = Inr ((), ?e\<lparr>bid_book := [?b1] @ ?b2\<lparr>quantity := 10\<rparr> # []\<rparr>)"
    using amend_quantity_guard [of ?e "[?b1]" ?b2 "[]" 21 10 ?e 10 "[]" ?a "[]" 41]
    by simp
  have ask: "amend_quantity 10 41 ?e = Inl (NewQuantityNotSmaller, ?e)"
    using amend_quantity_guard [of ?e "[?b1]" ?b2 "[]" 21 10 ?e 10 "[]" ?a "[]" 41]
    by simp
  from up down ask show ?thesis by simp
qed

text \<open>
  On the ask side a quantity that is not greater raises \<open>TypeError\<close>: the statement
  \<open>ask['quantity'] = quantity\<close> assigns an item of an order object. No amendment of an
  ask succeeds.
\<close>

lemma amend_of_ask_raises_TypeError:
  "amend_quantity 10 30
     \<lparr>bid_book = [],
      ask_book = [\<lparr>order_id = 10, symbol = ''SYM'', quantity = 40, side = Some SELL, time = 2,
                    price = Some 160, order_type = Some LIMIT\<rparr>]\<rparr> =
   Inl (TypeError,
     \<lparr>bid_book = [],
      ask_book = [\<lparr>order_id = 10, symbol = ''SYM'', quantity = 40, side = Some SELL, time = 2,
                    price = Some 160, order_type = Some LIMIT\<rparr>]\<rparr>)"
  by (simp add: amend_quantity_def)

section \<open>Conservation of quantity (C8)\<close>

lemma sort_books_total:
  "sort_books e = Inr (u, e') \<Longrightarrow>
   total_quantity (bid_book e') = total_quantity (bid_book e) \<and>
   total_quantity (ask_book e') = total_quantity (ask_book e)"
  by (auto simp: sort_books_def py_sorted_total split: option.splits)

lemma insert_limit_order_total:
  assumes "insert_limit_order order e = Inr (u, e')" "side order = Some sd"
  shows "total_quantity (own_book sd e') = total_quantity (own_book sd e) + quantity order
       \<and> total_quantity (opposite_book sd e') = total_quantity (opposite_book sd e)"
  using assms
  by (cases sd) (auto simp: insert_limit_order_def split: if_splits dest!: sort_books_total)

lemma limit_conserves:
  assumes pos: "0 < quantity order" and sd: "side order = Some sd"
    and run: "handle_limit_order order e = Inr ((filled_orders, order'), e')"
  shows "total_quantity (opposite_book sd e) - total_quantity (opposite_book sd e')
           + (total_quantity (own_book sd e') - total_quantity (own_book sd e)) = quantity order
         \<and> total_quantity (own_book sd e') - total_quantity (own_book sd e) = quantity order'"
proof -
  from sd run obtain temp_list where
    c: "cross LIMIT order (opposite_book sd e) [] [] = Inr (order', temp_list, filled_orders)"
    and r: "if 0 < quantity order'
     then insert_limit_order order' (set_opposite_book sd temp_list e) = Inr ((), e')
     else e' = set_opposite_book sd temp_list e"
    by (rule handle_limit_order_cases)
  from cross_conserves [OF c]
  have removed: "total_quantity (opposite_book sd e) - total_quantity temp_list
      = quantity order - quantity order'" by simp
  from cross_quantity_nonneg [OF c] pos have nonneg: "0 \<le> quantity order'" by simp
  from cross_side_kept [OF c] sd have sd': "side order' = Some sd" by simp
  have opp: "opposite_book sd (set_opposite_book sd temp_list e) = temp_list"
    and own: "own_book sd (set_opposite_book sd temp_list e) = own_book sd e"
    by (cases sd; simp)+
  show ?thesis
  proof (cases "0 < quantity order'")
    case True
    with r have "insert_limit_order order' (set_opposite_book sd temp_list e) = Inr ((), e')"
      by simp
    from insert_limit_order_total [OF this sd'] opp own removed show ?thesis by simp
  next
    case False
    with nonneg have "quantity order' = 0" by simp
    moreover from False r have "e' = set_opposite_book sd temp_list e" by simp
    ultimately show ?thesis using opp own removed by simp
  qed
qed

lemma handle_ioc_order_cases:
  assumes "side order = Some sd"
    and "handle_ioc_order order e = Inr ((filled_orders, order'), e')"
  obtains temp_list b where
    "cross IOC order (opposite_book sd e) [] [] = Inr (order', temp_list, filled_orders)"
    "py_sorted key_price_time temp_list = Some b"
    "e' = set_opposite_book sd b e"
  using assms
  by (cases sd) (auto simp: handle_ioc_order_def split: sum.splits option.splits)

lemma ioc_conserves:
  assumes sd: "side order = Some sd"
    and run: "handle_ioc_order order e = Inr ((filled_orders, order'), e')"
  shows "total_quantity (opposite_book sd e) - total_quantity (opposite_book sd e')
           + quantity order' = quantity order
         \<and> own_book sd e' = own_book sd e"
proof -
  from sd run obtain temp_list b where
    c: "cross IOC order (opposite_book sd e) [] [] = Inr (order', temp_list, filled_orders)"
    and s: "py_sorted key_price_time temp_list = Some b"
    and e': "e' = set_opposite_book sd b e"
    by (rule handle_ioc_order_cases)
  from cross_conserves [OF c] py_sorted_total [OF s]
  have "total_quantity (opposite_book sd e) - total_quantity b = quantity order - quantity order'"
    by simp
  moreover have "opposite_book sd (set_opposite_book sd b e) = b"
    and "own_book sd (set_opposite_book sd b e) = own_book sd e"
    by (cases sd; simp)+
  ultimately show ?thesis using e' by simp
qed

lemma handle_market_order_cases:
  assumes "side order = Some sd"
    and "handle_market_order order e = Inr ((filled_orders, order'), e')"
  obtains temp_list b where
    "cross MARKET order (opposite_book sd e) [] [] = Inr (order', temp_list, filled_orders)"
    "py_sorted key_price_time (if 0 < quantity order' then temp_list @ [order'] else temp_list)
       = Some b"
    "e' = set_opposite_book sd b e"
  using assms
  by (cases sd) (auto simp: handle_market_order_def Let_def split: sum.splits option.splits)

lemma py_sorted_priced:
  "py_sorted key_price_time xs = Some ys \<Longrightarrow> x \<in> set xs \<Longrightarrow> price x \<noteq> None"
  by (auto simp: py_sorted_def key_price_time_def list_all_iff split: if_splits)

lemma market_return_consumed:
  assumes pos: "0 < quantity order" and np: "price order = None"
    and c: "cross MARKET order book [] [] = Inr (order', temp_list, filled_orders)"
    and s: "py_sorted key_price_time
        (if 0 < quantity order' then temp_list @ [order'] else temp_list) = Some b"
  shows "quantity order' = 0"
proof (rule ccontr)
  assume nz: "quantity order' \<noteq> 0"
  with cross_quantity_nonneg [OF c] pos have gt: "0 < quantity order'" by simp
  from cross_price_kept [OF c nz] np have "price order' = None" by simp
  moreover from gt s have "price order' \<noteq> None"
    by (auto dest: py_sorted_priced)
  ultimately show False by simp
qed

lemma market_conserves:
  assumes pos: "0 < quantity order" and sd: "side order = Some sd" and np: "price order = None"
    and run: "handle_market_order order e = Inr ((filled_orders, order'), e')"
  shows "total_quantity (opposite_book sd e) - total_quantity (opposite_book sd e')
           + quantity order' = quantity order
         \<and> own_book sd e' = own_book sd e \<and> quantity order' = 0"
proof -
  from sd run obtain temp_list b where
    c: "cross MARKET order (opposite_book sd e) [] [] = Inr (order', temp_list, filled_orders)"
    and s: "py_sorted key_price_time
        (if 0 < quantity order' then temp_list @ [order'] else temp_list) = Some b"
    and e': "e' = set_opposite_book sd b e"
    by (rule handle_market_order_cases)
  from market_return_consumed [OF pos np c s] have z: "quantity order' = 0" .
  with s have "py_sorted key_price_time temp_list = Some b" by simp
  from cross_conserves [OF c] py_sorted_total [OF this]
  have "total_quantity (opposite_book sd e) - total_quantity b = quantity order - quantity order'"
    by simp
  moreover have "opposite_book sd (set_opposite_book sd b e) = b"
    and "own_book sd (set_opposite_book sd b e) = own_book sd e"
    by (cases sd; simp)+
  ultimately show ?thesis using e' z by simp
qed

text \<open>
  C8. In one crossing pass, the quantity taken out of the opposite book plus the quantity
  the incoming order is left with equals the incoming order's quantity before the pass.
  For a limit order, what it is left with is the quantity that its own side's book
  gains; for an IOC order it is dropped, and its own side's book is unchanged; a market
  order that returns is left with nothing. The first part is the loop of any handler;
  the other three are the handlers. The incoming order has a positive quantity and a
  side, as every constructed order has, and a market order has no price.
\<close>

theorem crossing_pass_conserves_quantity:
  "(cross k order book [] [] = Inr (order', temp_list, filled_orders) \<longrightarrow>
      total_quantity book - total_quantity temp_list + quantity order' = quantity order)
   \<and> (0 < quantity lo \<and> side lo = Some sl \<and>
       handle_limit_order lo el = Inr ((filled_l, lo'), el') \<longrightarrow>
      total_quantity (opposite_book sl el) - total_quantity (opposite_book sl el')
        + (total_quantity (own_book sl el') - total_quantity (own_book sl el)) = quantity lo
      \<and> total_quantity (own_book sl el') - total_quantity (own_book sl el) = quantity lo')
   \<and> (side io = Some si \<and> handle_ioc_order io ei = Inr ((filled_i, io'), ei') \<longrightarrow>
      total_quantity (opposite_book si ei) - total_quantity (opposite_book si ei')
        + quantity io' = quantity io
      \<and> own_book si ei' = own_book si ei)
   \<and> (0 < quantity mo \<and> side mo = Some sm \<and> price mo = None \<and>
       handle_market_order mo em = Inr ((filled_m, mo'), em') \<longrightarrow>
      total_quantity (opposite_book sm em) - total_quantity (opposite_book sm em')
        + quantity mo' = quantity mo
      \<and> own_book sm em' = own_book sm em \<and> quantity mo' = 0)"
proof (intro conjI impI)
  assume "cross k order book [] [] = Inr (order', temp_list, filled_orders)"
  from cross_conserves [OF this]
  show "total_quantity book - total_quantity temp_list + quantity order' = quantity order"
    by simp
next
  assume h: "0 < quantity lo \<and> side lo = Some sl \<and>
       handle_limit_order lo el = Inr ((filled_l, lo'), el')"
  then have *: "total_quantity (opposite_book sl el) - total_quantity (opposite_book sl el')
        + (total_quantity (own_book sl el') - total_quantity (own_book sl el)) = quantity lo
      \<and> total_quantity (own_book sl el') - total_quantity (own_book sl el) = quantity lo'"
    using limit_conserves [of lo sl el filled_l lo' el'] by simp
  from * show "total_quantity (opposite_book sl el) - total_quantity (opposite_book sl el')
        + (total_quantity (own_book sl el') - total_quantity (own_book sl el)) = quantity lo"
    by simp
  from * show "total_quantity (own_book sl el') - total_quantity (own_book sl el) = quantity lo'"
    by simp
next
  assume h: "side io = Some si \<and> handle_ioc_order io ei = Inr ((filled_i, io'), ei')"
  then have *: "total_quantity (opposite_book si ei) - total_quantity (opposite_book si ei')
        + quantity io' = quantity io \<and> own_book si ei' = own_book si ei"
    using ioc_conserves [of io si ei filled_i io' ei'] by simp
  from * show "total_quantity (opposite_book si ei) - total_quantity (opposite_book si ei')
        + quantity io' = quantity io" by simp
  from * show "own_book si ei' = own_book si ei" by simp
next
  assume h: "0 < quantity mo \<and> side mo = Some sm \<and> price mo = None \<and>
       handle_market_order mo em = Inr ((filled_m, mo'), em')"
  then have *: "total_quantity (opposite_book sm em) - total_quantity (opposite_book sm em')
        + quantity mo' = quantity mo
      \<and> own_book sm em' = own_book sm em \<and> quantity mo' = 0"
    using market_conserves [of mo sm em filled_m mo' em'] by simp
  from * show "total_quantity (opposite_book sm em) - total_quantity (opposite_book sm em')
        + quantity mo' = quantity mo" by simp
  from * show "own_book sm em' = own_book sm em" by simp
  from * show "quantity mo' = 0" by simp
qed

text \<open>
  The witness, on a bid book of 40 units at 150 and 25 units at 140. A limit SELL of 100
  units at 145 takes the 40 units and posts 60; an IOC SELL of 50 units at 150 takes the
  40 units and is left with 10; a market SELL of 50 units takes the 40 units and 10 of
  the 25.
\<close>

theorem crossing_pass_conserves_quantity_witness:
  "handle_limit_order \<lparr>order_id = 2, symbol = ''SYM'', quantity = 100, side = Some SELL, time = 3,
                       price = Some 145, order_type = Some LIMIT\<rparr>
     \<lparr>bid_book = [\<lparr>order_id = 20, symbol = ''SYM'', quantity = 40, side = Some BUY, time = 1,
                    price = Some 150, order_type = Some LIMIT\<rparr>,
                  \<lparr>order_id = 21, symbol = ''SYM'', quantity = 25, side = Some BUY, time = 2,
                    price = Some 140, order_type = Some LIMIT\<rparr>],
      ask_book = []\<rparr> =
   Inr (([\<lparr>order_id = 20, symbol = ''SYM'', quantity = 0, side = Some BUY, time = 1,
            price = Some 150, order_type = Some LIMIT\<rparr>],
         \<lparr>order_id = 2, symbol = ''SYM'', quantity = 60, side = Some SELL, time = 3,
           price = Some 145, order_type = Some LIMIT\<rparr>),
        \<lparr>bid_book = [\<lparr>order_id = 21, symbol = ''SYM'', quantity = 25, side = Some BUY, time = 2,
                       price = Some 140, order_type = Some LIMIT\<rparr>],
         ask_book = [\<lparr>order_id = 2, symbol = ''SYM'', quantity = 60, side = Some SELL, time = 3,
                       price = Some 145, order_type = Some LIMIT\<rparr>]\<rparr>)
   \<and> handle_ioc_order \<lparr>order_id = 4, symbol = ''SYM'', quantity = 50, side = Some SELL, time = 4,
                       price = Some 150, order_type = Some IOC\<rparr>
     \<lparr>bid_book = [\<lparr>order_id = 20, symbol = ''SYM'', quantity = 40, side = Some BUY, time = 1,
                    price = Some 150, order_type = Some LIMIT\<rparr>,
                  \<lparr>order_id = 21, symbol = ''SYM'', quantity = 25, side = Some BUY, time = 2,
                    price = Some 140, order_type = Some LIMIT\<rparr>],
      ask_book = []\<rparr> =
   Inr (([\<lparr>order_id = 20, symbol = ''SYM'', quantity = 0, side = Some BUY, time = 1,
            price = Some 150, order_type = Some LIMIT\<rparr>],
         \<lparr>order_id = 4, symbol = ''SYM'', quantity = 10, side = Some SELL, time = 4,
           price = Some 150, order_type = Some IOC\<rparr>),
        \<lparr>bid_book = [\<lparr>order_id = 21, symbol = ''SYM'', quantity = 25, side = Some BUY, time = 2,
                       price = Some 140, order_type = Some LIMIT\<rparr>],
         ask_book = []\<rparr>)
   \<and> handle_market_order \<lparr>order_id = 5, symbol = ''SYM'', quantity = 50, side = Some SELL, time = 5,
                       price = None, order_type = Some MARKET\<rparr>
     \<lparr>bid_book = [\<lparr>order_id = 20, symbol = ''SYM'', quantity = 40, side = Some BUY, time = 1,
                    price = Some 150, order_type = Some LIMIT\<rparr>,
                  \<lparr>order_id = 21, symbol = ''SYM'', quantity = 25, side = Some BUY, time = 2,
                    price = Some 140, order_type = Some LIMIT\<rparr>],
      ask_book = []\<rparr> =
   Inr (([\<lparr>order_id = 20, symbol = ''SYM'', quantity = 0, side = Some BUY, time = 1,
            price = Some 150, order_type = Some LIMIT\<rparr>,
          \<lparr>order_id = 5, symbol = ''SYM'', quantity = 0, side = Some SELL, time = 5,
            price = Some 140, order_type = Some MARKET\<rparr>,
          \<lparr>order_id = 21, symbol = ''SYM'', quantity = 10, side = Some BUY, time = 2,
            price = Some 140, order_type = Some LIMIT\<rparr>],
         \<lparr>order_id = 5, symbol = ''SYM'', quantity = 0, side = Some SELL, time = 5,
           price = Some 140, order_type = Some MARKET\<rparr>),
        \<lparr>bid_book = [\<lparr>order_id = 21, symbol = ''SYM'', quantity = 15, side = Some BUY, time = 2,
                       price = Some 140, order_type = Some LIMIT\<rparr>],
         ask_book = []\<rparr>)
   \<and> total_quantity
       [\<lparr>order_id = 20, symbol = ''SYM'', quantity = 40, side = Some BUY, time = 1,
           price = Some 150, order_type = Some LIMIT\<rparr>,
        \<lparr>order_id = 21, symbol = ''SYM'', quantity = 25, side = Some BUY, time = 2,
           price = Some 140, order_type = Some LIMIT\<rparr>]
     - total_quantity
       [\<lparr>order_id = 21, symbol = ''SYM'', quantity = 25, side = Some BUY, time = 2,
          price = Some 140, order_type = Some LIMIT\<rparr>]
     + (total_quantity
       [\<lparr>order_id = 2, symbol = ''SYM'', quantity = 60, side = Some SELL, time = 3,
          price = Some 145, order_type = Some LIMIT\<rparr>]
        - total_quantity []) = 100
   \<and> total_quantity
       [\<lparr>order_id = 20, symbol = ''SYM'', quantity = 40, side = Some BUY, time = 1,
           price = Some 150, order_type = Some LIMIT\<rparr>,
        \<lparr>order_id = 21, symbol = ''SYM'', quantity = 25, side = Some BUY, time = 2,
           price = Some 140, order_type = Some LIMIT\<rparr>]
     - total_quantity
       [\<lparr>order_id = 21, symbol = ''SYM'', quantity = 25, side = Some BUY, time = 2,
          price = Some 140, order_type = Some LIMIT\<rparr>]
     + 10 = 50
   \<and> total_quantity
       [\<lparr>order_id = 20, symbol = ''SYM'', quantity = 40, side = Some BUY, time = 1,
           price = Some 150, order_type = Some LIMIT\<rparr>,
        \<lparr>order_id = 21, symbol = ''SYM'', quantity = 25, side = Some BUY, time = 2,
           price = Some 140, order_type = Some LIMIT\<rparr>]
     - total_quantity
       [\<lparr>order_id = 21, symbol = ''SYM'', quantity = 15, side = Some BUY, time = 2,
          price = Some 140, order_type = Some LIMIT\<rparr>]
     + 0 = 50"
proof -
  let ?b1 = "\<lparr>order_id = 20, symbol = ''SYM'', quantity = 40, side = Some BUY, time = 1,
               price = Some 150, order_type = Some LIMIT\<rparr>"
  let ?b2 = "\<lparr>order_id = 21, symbol = ''SYM'', quantity = 25, side = Some BUY, time = 2,
               price = Some 140, order_type = Some LIMIT\<rparr>"
  let ?e = "\<lparr>bid_book = [?b1, ?b2], ask_book = []\<rparr>"
  let ?lo = "\<lparr>order_id = 2, symbol = ''SYM'', quantity = 100, side = Some SELL, time = 3,
               price = Some 145, order_type = Some LIMIT\<rparr>"
  let ?io = "\<lparr>order_id = 4, symbol = ''SYM'', quantity = 50, side = Some SELL, time = 4,
               price = Some 150, order_type = Some IOC\<rparr>"
  let ?mo = "\<lparr>order_id = 5, symbol = ''SYM'', quantity = 50, side = Some SELL, time = 5,
               price = None, order_type = Some MARKET\<rparr>"
  let ?el = "\<lparr>bid_book = [?b2], ask_book = [?lo\<lparr>quantity := 60\<rparr>]\<rparr>"
  let ?ei = "\<lparr>bid_book = [?b2], ask_book = []\<rparr>"
  let ?em = "\<lparr>bid_book = [?b2\<lparr>quantity := 15\<rparr>], ask_book = []\<rparr>"
  let ?fm = "[?b1\<lparr>quantity := 0\<rparr>, ?mo\<lparr>price := Some 140, quantity := 0\<rparr>,
              ?b2\<lparr>quantity := 10\<rparr>]"
  have l: "handle_limit_order ?lo ?e = Inr (([?b1\<lparr>quantity := 0\<rparr>], ?lo\<lparr>quantity := 60\<rparr>), ?el)"
    by (simp add: handler_defs)
  have i: "handle_ioc_order ?io ?e = Inr (([?b1\<lparr>quantity := 0\<rparr>], ?io\<lparr>quantity := 10\<rparr>), ?ei)"
    by (simp add: handler_defs)
  have m: "handle_market_order ?mo ?e
      = Inr ((?fm, ?mo\<lparr>price := Some 140, quantity := 0\<rparr>), ?em)"
    by (simp add: handler_defs)
  have c: "cross LIMIT ?lo [?b1, ?b2] [] []
      = Inr (?lo\<lparr>quantity := 60\<rparr>, [?b2], [?b1\<lparr>quantity := 0\<rparr>])"
    by simp
  note w = crossing_pass_conserves_quantity [of LIMIT ?lo "[?b1, ?b2]" "?lo\<lparr>quantity := 60\<rparr>"
      "[?b2]" "[?b1\<lparr>quantity := 0\<rparr>]"
      ?lo SELL ?e "[?b1\<lparr>quantity := 0\<rparr>]" "?lo\<lparr>quantity := 60\<rparr>" ?el
      ?io SELL ?e "[?b1\<lparr>quantity := 0\<rparr>]" "?io\<lparr>quantity := 10\<rparr>" ?ei
      ?mo SELL ?e ?fm "?mo\<lparr>price := Some 140, quantity := 0\<rparr>" ?em]
  from w l i m c show ?thesis by simp
qed


section \<open>\<open>cancel_order\<close> (C9)\<close>

lemma filter_other_id:
  "filter (\<lambda>x. order_id x = i) xs = [] \<Longrightarrow> filter (\<lambda>x. order_id x \<noteq> i) xs = xs"
  by (induction xs) (auto split: if_splits)

lemma del_first_None:
  "del_first i xs = None \<longleftrightarrow> filter (\<lambda>x. order_id x = i) xs = []"
  by (induction xs) auto

lemma del_first_once:
  "length (filter (\<lambda>x. order_id x = i) xs) = 1 \<Longrightarrow>
   del_first i xs = Some (filter (\<lambda>x. order_id x \<noteq> i) xs)"
  by (induction xs) (auto simp: filter_other_id split: if_splits)

text \<open>
  C9. When exactly one entry of the two books carries the identifier, \<open>cancel_order\<close>
  returns \<open>True\<close> and removes that entry, every other entry staying where it is; the
  same call on the resulting engine returns \<open>False\<close> and changes nothing. The method
  has no \<open>raise\<close>: its result is a boolean in every case (\<open>cancel_order\<close> is a total
  function into \<open>bool \<times> MatchingEngine\<close>).
\<close>

theorem cancel_order_twice:
  assumes "length (filter (\<lambda>x. order_id x = i) (bid_book e @ ask_book e)) = 1"
  shows "cancel_order i e = (True, without_id i e)
         \<and> cancel_order i (without_id i e) = (False, without_id i e)
         \<and> length (bid_book (without_id i e) @ ask_book (without_id i e)) + 1
             = length (bid_book e @ ask_book e)"
proof -
  let ?P = "\<lambda>x. order_id x = i"
  let ?N = "\<lambda>x. order_id x \<noteq> i"
  from assms have sum: "length (filter ?P (bid_book e)) + length (filter ?P (ask_book e)) = 1"
    by simp
  have gone: "del_first i (filter ?N xs) = None" for xs
    by (simp add: del_first_None)
  have len: "length (filter ?N xs) + length (filter ?P xs) = length xs" for xs
    using sum_length_filter_compl [of ?P xs] by simp
  have first: "cancel_order i e = (True, without_id i e)"
  proof (cases "filter ?P (bid_book e) = []")
    case True
    with sum have "length (filter ?P (ask_book e)) = 1" by simp
    with True show ?thesis
      by (simp add: cancel_order_def without_id_def del_first_once del_first_None [THEN iffD2]
          filter_other_id)
  next
    case False
    then have "0 < length (filter ?P (bid_book e))" by simp
    with sum have b: "length (filter ?P (bid_book e)) = 1"
      and "length (filter ?P (ask_book e)) = 0"
      by linarith+
    then have a: "filter ?P (ask_book e) = []" by simp
    from b a show ?thesis
      by (simp add: cancel_order_def without_id_def del_first_once filter_other_id)
  qed
  have second: "cancel_order i (without_id i e) = (False, without_id i e)"
    by (simp add: cancel_order_def without_id_def gone)
  have third: "length (bid_book (without_id i e) @ ask_book (without_id i e)) + 1
      = length (bid_book e @ ask_book e)"
    using len [of "bid_book e"] len [of "ask_book e"] sum by (simp add: without_id_def)
  from first second third show ?thesis by simp
qed

theorem cancel_order_twice_witness:
  "length (filter (\<lambda>x. order_id x = 7)
     (bid_book
        \<lparr>bid_book = [\<lparr>order_id = 5, symbol = ''SYM'', quantity = 10, side = Some BUY, time = 1,
                    price = Some 100, order_type = Some LIMIT\<rparr>],
      ask_book = [\<lparr>order_id = 7, symbol = ''SYM'', quantity = 10, side = Some SELL, time = 2,
                    price = Some 120, order_type = Some LIMIT\<rparr>]\<rparr>
      @ ask_book
        \<lparr>bid_book = [\<lparr>order_id = 5, symbol = ''SYM'', quantity = 10, side = Some BUY, time = 1,
                    price = Some 100, order_type = Some LIMIT\<rparr>],
      ask_book = [\<lparr>order_id = 7, symbol = ''SYM'', quantity = 10, side = Some SELL, time = 2,
                    price = Some 120, order_type = Some LIMIT\<rparr>]\<rparr>)) = 1
   \<and> cancel_order 7
     \<lparr>bid_book = [\<lparr>order_id = 5, symbol = ''SYM'', quantity = 10, side = Some BUY, time = 1,
                    price = Some 100, order_type = Some LIMIT\<rparr>],
      ask_book = [\<lparr>order_id = 7, symbol = ''SYM'', quantity = 10, side = Some SELL, time = 2,
                    price = Some 120, order_type = Some LIMIT\<rparr>]\<rparr> =
     (True,
      \<lparr>bid_book = [\<lparr>order_id = 5, symbol = ''SYM'', quantity = 10, side = Some BUY, time = 1,
                    price = Some 100, order_type = Some LIMIT\<rparr>],
      ask_book = []\<rparr>)
   \<and> cancel_order 7
     \<lparr>bid_book = [\<lparr>order_id = 5, symbol = ''SYM'', quantity = 10, side = Some BUY, time = 1,
                    price = Some 100, order_type = Some LIMIT\<rparr>],
      ask_book = []\<rparr> =
     (False,
      \<lparr>bid_book = [\<lparr>order_id = 5, symbol = ''SYM'', quantity = 10, side = Some BUY, time = 1,
                    price = Some 100, order_type = Some LIMIT\<rparr>],
      ask_book = []\<rparr>)"
  using cancel_order_twice [of 7
     "\<lparr>bid_book = [\<lparr>order_id = 5, symbol = ''SYM'', quantity = 10, side = Some BUY, time = 1,
                    price = Some 100, order_type = Some LIMIT\<rparr>],
      ask_book = [\<lparr>order_id = 7, symbol = ''SYM'', quantity = 10, side = Some SELL, time = 2,
                    price = Some 120, order_type = Some LIMIT\<rparr>]\<rparr>"]
  by (simp add: without_id_def)


section \<open>Market orders that are not filled (C10)\<close>

lemma crossable_market:
  "crossable MARKET order b \<longleftrightarrow> symbol b = symbol order \<and> quantity order \<noteq> 0"
  by (simp add: crossable_def)

lemma cross_market_unfilled:
  assumes "\<forall>b\<in>set book. 0 \<le> quantity b"
    and "total_quantity (filter (\<lambda>b. symbol b = symbol order) book) < quantity order"
  shows "cross MARKET order book temp_list filled_orders =
     Inr (order\<lparr>quantity := quantity order
                  - total_quantity (filter (\<lambda>b. symbol b = symbol order) book)\<rparr>,
          temp_list @ filter (\<lambda>b. symbol b \<noteq> symbol order) book,
          filled_orders @ map (\<lambda>b. b\<lparr>quantity := 0\<rparr>)
            (filter (\<lambda>b. symbol b = symbol order) book))"
  using assms
proof (induction book arbitrary: order temp_list filled_orders)
  case Nil
  then show ?case by simp
next
  case (Cons b rest)
  from Cons.prems(1) have nb: "0 \<le> quantity b" and nrest: "\<forall>x\<in>set rest. 0 \<le> quantity x"
    by simp_all
  have tot: "0 \<le> total_quantity (filter (\<lambda>x. symbol x = symbol order) rest)"
    using nrest by (induction rest) auto
  show ?case
  proof (cases "symbol b = symbol order")
    case False
    with Cons.prems(2)
    have "total_quantity (filter (\<lambda>x. symbol x = symbol order) rest) < quantity order" by simp
    from Cons.IH [OF nrest this] False show ?thesis
      by (simp del: cross.simps add: cross_skip)
  next
    case True
    with Cons.prems(2)
    have lt: "quantity b + total_quantity (filter (\<lambda>x. symbol x = symbol order) rest)
        < quantity order" by simp
    with tot nb have gt: "quantity b < quantity order" and nz: "quantity order \<noteq> 0" by linarith+
    let ?o = "order\<lparr>quantity := quantity order - quantity b\<rparr>"
    from lt have "total_quantity (filter (\<lambda>x. symbol x = symbol ?o) rest) < quantity ?o"
      by simp
    from Cons.IH [OF nrest this, of temp_list "filled_orders @ [b\<lparr>quantity := 0\<rparr>]"]
    have "cross MARKET ?o rest temp_list (filled_orders @ [b\<lparr>quantity := 0\<rparr>]) =
      Inr (order\<lparr>quantity := quantity order - quantity b
                  - total_quantity (filter (\<lambda>x. symbol x = symbol order) rest)\<rparr>,
          temp_list @ filter (\<lambda>x. symbol x \<noteq> symbol order) rest,
          filled_orders @ b\<lparr>quantity := 0\<rparr> # map (\<lambda>b. b\<lparr>quantity := 0\<rparr>)
            (filter (\<lambda>b. symbol b = symbol order) rest))"
      by simp
    moreover from True nz gt
    have "cross MARKET order (b # rest) temp_list filled_orders =
        cross MARKET ?o rest temp_list (filled_orders @ [b\<lparr>quantity := 0\<rparr>])"
      by (intro cross_greater) (simp_all add: crossable_market)
    ultimately show ?thesis using True by (simp del: cross.simps add: algebra_simps)
  qed
qed

lemma py_sorted_unpriced:
  "price x = None \<Longrightarrow> py_sorted key_price_time (xs @ [x]) = None"
  by (simp add: py_sorted_def key_price_time_def)

lemma unfilled_market_order_raises:
  assumes np: "price mo = None" and sd: "side mo = Some sd"
    and nn: "list_all (\<lambda>b. 0 \<le> quantity b) (opposite_book sd e)"
    and lt: "total_quantity (filter (\<lambda>b. symbol b = symbol mo) (opposite_book sd e))
        < quantity mo"
  shows "handle_market_order mo e =
      Inl (AttributeError,
           set_opposite_book sd
             (filter (\<lambda>b. symbol b \<noteq> symbol mo) (opposite_book sd e)
              @ [mo\<lparr>quantity := quantity mo
                 - total_quantity (filter (\<lambda>b. symbol b = symbol mo) (opposite_book sd e))\<rparr>])
             e)"
proof -
  from nn have "\<forall>b\<in>set (opposite_book sd e). 0 \<le> quantity b" by (simp add: list_all_iff)
  from cross_market_unfilled [OF this lt, of "[]" "[]"]
  have c: "cross MARKET mo (opposite_book sd e) [] [] =
     Inr (mo\<lparr>quantity := quantity mo
                  - total_quantity (filter (\<lambda>b. symbol b = symbol mo) (opposite_book sd e))\<rparr>,
          filter (\<lambda>b. symbol b \<noteq> symbol mo) (opposite_book sd e),
          map (\<lambda>b. b\<lparr>quantity := 0\<rparr>)
            (filter (\<lambda>b. symbol b = symbol mo) (opposite_book sd e)))"
    by simp
  show ?thesis
  proof (cases sd)
    case BUY
    with c sd np lt show ?thesis
      by (simp add: handle_market_order_def py_sorted_unpriced)
  next
    case SELL
    with c sd np lt show ?thesis
      by (simp add: handle_market_order_def py_sorted_unpriced)
  qed
qed

lemma returned_market_order_consumed:
  assumes np: "price mo = None" and pos: "0 < quantity mo"
    and run: "handle_market_order mo e = Inr ((filled_orders, mo'), e')"
  shows "quantity mo' = 0"
proof -
  from run obtain sd where sd: "side mo = Some sd"
    by (cases "side mo") (simp_all add: handle_market_order_def)
  from market_conserves [OF pos sd np run] show ?thesis by simp
qed

lemma cross_market_filled:
  assumes "\<forall>b\<in>set book. price b \<noteq> None \<and> 0 \<le> quantity b"
    and "\<forall>b\<in>set temp_list. price b \<noteq> None"
    and "0 \<le> quantity order"
    and "quantity order \<le> total_quantity (filter (\<lambda>b. symbol b = symbol order) book)"
  shows "\<exists>order' temp_list' filled_orders'.
     cross MARKET order book temp_list filled_orders = Inr (order', temp_list', filled_orders')
     \<and> quantity order' = 0 \<and> (\<forall>b\<in>set temp_list'. price b \<noteq> None)"
  using assms
proof (induction book arbitrary: order temp_list filled_orders)
  case Nil
  then show ?case by simp
next
  case (Cons b rest)
  from Cons.prems(1) have pb: "price b \<noteq> None" and nb: "0 \<le> quantity b"
    and prest: "\<forall>x\<in>set rest. price x \<noteq> None \<and> 0 \<le> quantity x"
    by simp_all
  note pt = Cons.prems(2)
  have zero: "\<exists>order' temp_list' filled_orders'.
     cross MARKET o2 rest t2 f2 = Inr (order', temp_list', filled_orders')
     \<and> quantity order' = 0 \<and> (\<forall>b\<in>set temp_list'. price b \<noteq> None)"
    if "quantity o2 = 0" "\<forall>b\<in>set t2. price b \<noteq> None" for o2 t2 f2
    using that prest by (auto simp: cross_zero)
  show ?case
  proof (cases rule: cross_cases [where book = b and order = order and k = MARKET])
    case skip
    show ?thesis
    proof (cases "quantity order = 0")
      case True
      with pt pb prest show ?thesis by (auto simp: cross_zero)
    next
      case False
      with skip have ne: "symbol b \<noteq> symbol order" by simp
      with Cons.prems(4)
      have "quantity order \<le> total_quantity (filter (\<lambda>x. symbol x = symbol order) rest)"
        by simp
      moreover from pt pb have "\<forall>x\<in>set (temp_list @ [b]). price x \<noteq> None" by simp
      ultimately show ?thesis
        using Cons.IH [OF prest _ Cons.prems(3), of "temp_list @ [b]" filled_orders] ne
        by (simp del: cross.simps add: cross_skip)
    qed
  next
    case no_price
    then show ?thesis by simp
  next
    case (no_match p r)
    then show ?thesis by simp
  next
    case greater
    then have same: "symbol b = symbol order" by (simp add: crossable_market)
    let ?o = "order\<lparr>quantity := quantity order - quantity b\<rparr>"
    from greater(2) have "0 \<le> quantity ?o" by simp
    moreover from Cons.prems(4) same
    have "quantity ?o \<le> total_quantity (filter (\<lambda>x. symbol x = symbol ?o) rest)" by simp
    ultimately show ?thesis
      using Cons.IH [OF prest pt, of ?o "filled_orders @ [b\<lparr>quantity := 0\<rparr>]"] greater
      by (simp del: cross.simps add: cross_greater)
  next
    case equal
    with zero [of "order\<lparr>quantity := 0\<rparr>" temp_list] pt show ?thesis
      by (simp del: cross.simps add: cross_equal)
  next
    case less_limit
    then show ?thesis by simp
  next
    case less_other
    with zero [of "order\<lparr>price := price b, quantity := 0\<rparr>"
        "temp_list @ [b\<lparr>quantity := quantity b - quantity order\<rparr>]"] pt pb
    show ?thesis
      by (simp del: cross.simps add: cross_less_other)
  qed
qed

lemma py_sorted_Some:
  "\<forall>b\<in>set xs. price b \<noteq> None \<Longrightarrow> \<exists>ys. py_sorted key_price_time xs = Some ys"
  by (simp add: py_sorted_def key_price_time_def list_all_iff)

lemma filled_market_order_returns:
  assumes sd: "side mo = Some sd" and pos: "0 < quantity mo"
    and pr: "list_all (\<lambda>b. price b \<noteq> None \<and> 0 \<le> quantity b) (opposite_book sd e)"
    and ge: "quantity mo \<le> total_quantity (filter (\<lambda>b. symbol b = symbol mo) (opposite_book sd e))"
  shows "\<exists>filled_orders mo' e'.
     handle_market_order mo e = Inr ((filled_orders, mo'), e') \<and> quantity mo' = 0"
proof -
  from pr have "\<forall>b\<in>set (opposite_book sd e). price b \<noteq> None \<and> 0 \<le> quantity b"
    by (simp add: list_all_iff)
  from cross_market_filled [OF this _ _ ge, of "[]" "[]"] pos
  obtain order' temp_list' filled_orders' where
    c: "cross MARKET mo (opposite_book sd e) [] [] = Inr (order', temp_list', filled_orders')"
    and z: "quantity order' = 0" and p: "\<forall>b\<in>set temp_list'. price b \<noteq> None"
    by auto
  from py_sorted_Some [OF p] obtain ys where s: "py_sorted key_price_time temp_list' = Some ys" ..
  show ?thesis
  proof (cases sd)
    case BUY
    with c z s sd show ?thesis by (simp add: handle_market_order_def)
  next
    case SELL
    with c z s sd show ?thesis by (simp add: handle_market_order_def)
  qed
qed

text \<open>
  C10. A market order (no price) whose quantity exceeds the quantity that the opposite
  book holds for its symbol does not return: it consumes every entry of its symbol, is
  appended with what is left to the entries that stay, this list becomes the opposite
  book, and the sort of that book raises \<open>AttributeError\<close>. An empty opposite book is
  the case of the sum 0. A market order for which the handler returns has no quantity
  left; and it does return, with nothing left, when the opposite book holds at least
  its quantity for its symbol. The resting quantities are not negative, and in the last
  part the resting entries have a price.
\<close>

theorem unfilled_market_order_does_not_return:
  "(price mo = None \<and> side mo = Some sd \<and>
    list_all (\<lambda>b. 0 \<le> quantity b) (opposite_book sd e) \<and>
    total_quantity (filter (\<lambda>b. symbol b = symbol mo) (opposite_book sd e)) < quantity mo \<longrightarrow>
      handle_market_order mo e =
        Inl (AttributeError,
             set_opposite_book sd
               (filter (\<lambda>b. symbol b \<noteq> symbol mo) (opposite_book sd e)
                @ [mo\<lparr>quantity := quantity mo
                   - total_quantity (filter (\<lambda>b. symbol b = symbol mo) (opposite_book sd e))\<rparr>])
               e))
   \<and> (price mr = None \<and> 0 < quantity mr \<and>
       handle_market_order mr er = Inr ((filled_orders, mr'), er') \<longrightarrow> quantity mr' = 0)
   \<and> (side mf = Some sf \<and> 0 < quantity mf \<and>
       list_all (\<lambda>b. price b \<noteq> None \<and> 0 \<le> quantity b) (opposite_book sf ef) \<and>
       quantity mf \<le> total_quantity (filter (\<lambda>b. symbol b = symbol mf) (opposite_book sf ef)) \<longrightarrow>
       (\<exists>fills mf' ef'. handle_market_order mf ef = Inr ((fills, mf'), ef') \<and> quantity mf' = 0))"
proof (intro conjI impI)
  assume "price mo = None \<and> side mo = Some sd \<and>
    list_all (\<lambda>b. 0 \<le> quantity b) (opposite_book sd e) \<and>
    total_quantity (filter (\<lambda>b. symbol b = symbol mo) (opposite_book sd e)) < quantity mo"
  then show "handle_market_order mo e =
        Inl (AttributeError,
             set_opposite_book sd
               (filter (\<lambda>b. symbol b \<noteq> symbol mo) (opposite_book sd e)
                @ [mo\<lparr>quantity := quantity mo
                   - total_quantity (filter (\<lambda>b. symbol b = symbol mo) (opposite_book sd e))\<rparr>])
               e)"
    using unfilled_market_order_raises [of mo sd e] by simp
next
  assume "price mr = None \<and> 0 < quantity mr \<and>
       handle_market_order mr er = Inr ((filled_orders, mr'), er')"
  then show "quantity mr' = 0"
    using returned_market_order_consumed [of mr er filled_orders mr' er'] by simp
next
  assume "side mf = Some sf \<and> 0 < quantity mf \<and>
       list_all (\<lambda>b. price b \<noteq> None \<and> 0 \<le> quantity b) (opposite_book sf ef) \<and>
       quantity mf \<le> total_quantity (filter (\<lambda>b. symbol b = symbol mf) (opposite_book sf ef))"
  then show "\<exists>fills mf' ef'. handle_market_order mf ef = Inr ((fills, mf'), ef') \<and> quantity mf' = 0"
    using filled_market_order_returns [of mf sf ef] by simp
qed

text \<open>
  The witness. A market BUY of 30 units meets an ask book with 10 units of its symbol
  and 5 units of another symbol: the call raises, and the ask book is left with the
  other symbol's entry followed by the market order with 20 units. A market SELL of 50
  units meets a bid book with 65 units: the call returns and the order has 0 units.
\<close>

theorem unfilled_market_order_does_not_return_witness:
  "handle_market_order
     \<lparr>order_id = 3, symbol = ''SYM'', quantity = 30, side = Some BUY, time = 3,
       price = None, order_type = Some MARKET\<rparr>
     \<lparr>bid_book = [],
      ask_book = [\<lparr>order_id = 10, symbol = ''SYM'', quantity = 10, side = Some SELL, time = 1,
                    price = Some 150, order_type = Some LIMIT\<rparr>,
                  \<lparr>order_id = 11, symbol = ''OTH'', quantity = 5, side = Some SELL, time = 2,
                    price = Some 90, order_type = Some LIMIT\<rparr>]\<rparr> =
   Inl (AttributeError,
     \<lparr>bid_book = [],
      ask_book = [\<lparr>order_id = 11, symbol = ''OTH'', quantity = 5, side = Some SELL, time = 2,
                    price = Some 90, order_type = Some LIMIT\<rparr>,
                  \<lparr>order_id = 3, symbol = ''SYM'', quantity = 20, side = Some BUY, time = 3,
                    price = None, order_type = Some MARKET\<rparr>]\<rparr>)
   \<and> handle_market_order
     \<lparr>order_id = 5, symbol = ''SYM'', quantity = 50, side = Some SELL, time = 5,
       price = None, order_type = Some MARKET\<rparr>
     \<lparr>bid_book = [\<lparr>order_id = 20, symbol = ''SYM'', quantity = 40, side = Some BUY, time = 1,
                    price = Some 150, order_type = Some LIMIT\<rparr>,
                  \<lparr>order_id = 21, symbol = ''SYM'', quantity = 25, side = Some BUY, time = 2,
                    price = Some 140, order_type = Some LIMIT\<rparr>],
      ask_book = []\<rparr> =
   Inr (([\<lparr>order_id = 20, symbol = ''SYM'', quantity = 0, side = Some BUY, time = 1,
            price = Some 150, order_type = Some LIMIT\<rparr>,
          \<lparr>order_id = 5, symbol = ''SYM'', quantity = 0, side = Some SELL, time = 5,
            price = Some 140, order_type = Some MARKET\<rparr>,
          \<lparr>order_id = 21, symbol = ''SYM'', quantity = 10, side = Some BUY, time = 2,
            price = Some 140, order_type = Some LIMIT\<rparr>],
         \<lparr>order_id = 5, symbol = ''SYM'', quantity = 0, side = Some SELL, time = 5,
           price = Some 140, order_type = Some MARKET\<rparr>),
        \<lparr>bid_book = [\<lparr>order_id = 21, symbol = ''SYM'', quantity = 15, side = Some BUY, time = 2,
                       price = Some 140, order_type = Some LIMIT\<rparr>],
         ask_book = []\<rparr>)
   \<and> quantity
         \<lparr>order_id = 5, symbol = ''SYM'', quantity = 0, side = Some SELL, time = 5,
           price = Some 140, order_type = Some MARKET\<rparr> = 0"
proof -
  let ?a1 = "\<lparr>order_id = 10, symbol = ''SYM'', quantity = 10, side = Some SELL, time = 1,
               price = Some 150, order_type = Some LIMIT\<rparr>"
  let ?a2 = "\<lparr>order_id = 11, symbol = ''OTH'', quantity = 5, side = Some SELL, time = 2,
               price = Some 90, order_type = Some LIMIT\<rparr>"
  let ?mo = "\<lparr>order_id = 3, symbol = ''SYM'', quantity = 30, side = Some BUY, time = 3,
               price = None, order_type = Some MARKET\<rparr>"
  let ?e = "\<lparr>bid_book = [], ask_book = [?a1, ?a2]\<rparr>"
  let ?b1 = "\<lparr>order_id = 20, symbol = ''SYM'', quantity = 40, side = Some BUY, time = 1,
               price = Some 150, order_type = Some LIMIT\<rparr>"
  let ?b2 = "\<lparr>order_id = 21, symbol = ''SYM'', quantity = 25, side = Some BUY, time = 2,
               price = Some 140, order_type = Some LIMIT\<rparr>"
  let ?ms = "\<lparr>order_id = 5, symbol = ''SYM'', quantity = 50, side = Some SELL, time = 5,
               price = None, order_type = Some MARKET\<rparr>"
  let ?ms' = "?ms\<lparr>price := Some 140, quantity := 0\<rparr>"
  let ?er = "\<lparr>bid_book = [?b1, ?b2], ask_book = []\<rparr>"
  let ?er' = "\<lparr>bid_book = [?b2\<lparr>quantity := 15\<rparr>], ask_book = []\<rparr>"
  let ?fm = "[?b1\<lparr>quantity := 0\<rparr>, ?ms', ?b2\<lparr>quantity := 10\<rparr>]"
  have r: "handle_market_order ?ms ?er = Inr ((?fm, ?ms'), ?er')"
    by (simp add: handler_defs)
  note w = unfilled_market_order_does_not_return
      [of ?mo BUY ?e ?ms ?er ?fm ?ms' ?er' ?ms SELL ?er]
  from w r show ?thesis by simp
qed


end
